theory Spec2Isabelle
  imports Main
begin

section \<open>Data model\<close>

text \<open>
  The device inventory service keeps its devices and their lifecycle log in a relational
  store reached through an ORM session. The data access layer
  (\<^verbatim>\<open>dal/device_dao.py\<close>, class \<^verbatim>\<open>DeviceDAO\<close>) and the HTTP controller
  (\<^verbatim>\<open>controllers/device_controller.py\<close>) are embedded here function by function.

  Python values that the code passes through without inspecting them (names, descriptions,
  locations, the specification mapping, event details, telemetry payloads) are values of
  \<open>pyval\<close>; \<open>None\<close> is \<open>PyNone\<close>.
\<close>

datatype pyval = PyNone | PyStr string | PyDict "(string \<times> pyval) list"

text \<open>
  Modelled from the spec: the enumerations \<^verbatim>\<open>DeviceStatus\<close> and \<^verbatim>\<open>DeviceType\<close> of
  \<^verbatim>\<open>entities/device.py\<close> and their request-side twins \<^verbatim>\<open>DeviceStatusDto\<close> and
  \<^verbatim>\<open>DeviceTypeDto\<close> of \<^verbatim>\<open>dto/device_dto.py\<close> are outside the embedded sources. The
  data model lists one set of values for each, so the conversion
  \<^verbatim>\<open>DeviceStatus(status.value)\<close> is the identity on it.
\<close>

datatype DeviceStatus = IN_STOCK | RESERVED | DEPLOYED | MAINTENANCE | RETIRED

datatype DeviceType = SENSOR | ACTUATOR | GATEWAY | OTHER

type_synonym DeviceStatusDto = DeviceStatus

type_synonym DeviceTypeDto = DeviceType

fun status_value :: "DeviceStatus \<Rightarrow> string" where
  "status_value IN_STOCK = ''in_stock''"
| "status_value RESERVED = ''reserved''"
| "status_value DEPLOYED = ''deployed''"
| "status_value MAINTENANCE = ''maintenance''"
| "status_value RETIRED = ''retired''"

fun type_value :: "DeviceType \<Rightarrow> string" where
  "type_value SENSOR = ''sensor''"
| "type_value ACTUATOR = ''actuator''"
| "type_value GATEWAY = ''gateway''"
| "type_value OTHER = ''other''"

text \<open>
  A \<^verbatim>\<open>Device\<close> row. An attribute that Python reads as \<open>None\<close> until it is set is an
  option. Points in time (\<^verbatim>\<open>datetime.utcnow()\<close>) are natural numbers supplied by the caller
  of each operation. Identifiers are compared for equality only and are natural numbers.
\<close>

record Device =
  dev_id :: "nat option"
  name :: pyval
  dev_type :: "DeviceType option"
  serial_number :: string
  description :: pyval
  status :: "DeviceStatus option"
  location :: pyval
  specifications :: pyval
  purchase_date :: "nat option"
  deploy_date :: "nat option"
  last_maintenance_date :: "nat option"
  created_at :: "nat option"
  updated_at :: "nat option"

text \<open>
  A \<^verbatim>\<open>DeviceLog\<close> row, with the six attributes that \<^verbatim>\<open>log_action\<close> passes to its
  constructor. The position of a row in the log table is the order of insertion.
\<close>

record DeviceLog =
  device_id :: nat
  action :: string
  old_status :: "string option"
  new_status :: "string option"
  performed_by :: "nat option"
  log_notes :: pyval

text \<open>
  The store behind a session: the device table and the log table in insertion order, and
  the next identifier the device table assigns.
\<close>

record session =
  devices :: "Device list"
  logs :: "DeviceLog list"
  next_id :: nat

text \<open>
  Exceptions. \<^verbatim>\<open>one_or_none()\<close> raises when a query matches more than one row; the
  store raises on a query it rejects; the controller raises \<^verbatim>\<open>HTTPException\<close> with a
  status code (the detail text is left out).
\<close>

datatype exn = MultipleResultsFound | StoreError | HTTPException nat

section \<open>The session\<close>

definition one_or_none :: "'a list \<Rightarrow> exn + 'a option" where
  "one_or_none rows =
     (case rows of
        [] \<Rightarrow> Inr None
      | [r] \<Rightarrow> Inr (Some r)
      | _ \<Rightarrow> Inl MultipleResultsFound)"

definition query_id :: "session \<Rightarrow> nat \<Rightarrow> exn + Device option" where
  "query_id s i = one_or_none (filter (\<lambda>d. dev_id d = Some i) (devices s))"

definition query_serial :: "session \<Rightarrow> string \<Rightarrow> exn + Device option" where
  "query_serial s sn = one_or_none (filter (\<lambda>d. serial_number d = sn) (devices s))"

text \<open>
  Modelled from the spec: the column defaults of \<^verbatim>\<open>entities/device.py\<close>, which is outside
  the embedded sources. A new row gets its identifier from the table, status
  \<open>in_stock\<close>, and its purchase, creation and update times; \<open>updated_at\<close> is set again at
  every committed mutation of the row.
\<close>

definition insert_defaults :: "nat \<Rightarrow> nat \<Rightarrow> Device \<Rightarrow> Device" where
  "insert_defaults i now d =
     d\<lparr>dev_id := Some i, status := Some IN_STOCK, purchase_date := Some now,
       created_at := Some now, updated_at := Some now\<rparr>"

definition on_update :: "nat \<Rightarrow> Device \<Rightarrow> Device" where
  "on_update now d = d\<lparr>updated_at := Some now\<rparr>"

text \<open>
  Committing a changed row writes it over the stored row with the same identifier. Every
  operation below takes \<open>commit_ok\<close>, the outcome of its \<^verbatim>\<open>session.commit()\<close>: when the
  commit raises, the operation rolls back and the store is as it was.
\<close>

definition store :: "session \<Rightarrow> nat \<Rightarrow> Device \<Rightarrow> session" where
  "store s now d' =
     s\<lparr>devices := map (\<lambda>d. if dev_id d = dev_id d' then on_update now d' else d) (devices s)\<rparr>"

section \<open>The data access layer\<close>

definition DeviceDAO_create_device :: "session \<Rightarrow> nat \<Rightarrow> bool \<Rightarrow> Device \<Rightarrow> exn + (bool \<times> Device \<times> session)" where
  "DeviceDAO_create_device s now commit_ok device =
     (case query_serial s (serial_number device) of
        Inl e \<Rightarrow> Inl e
      | Inr (Some existing) \<Rightarrow> Inr (False, device, s)
      | Inr None \<Rightarrow>
          if commit_ok then
            (let d = insert_defaults (next_id s) now device
             in Inr (True, d, s\<lparr>devices := devices s @ [d], next_id := Suc (next_id s)\<rparr>))
          else Inr (False, device, s))"

text \<open>
  \<^verbatim>\<open>get_all_devices\<close>. A filter that is \<open>None\<close> is not applied. The store rejects a
  negative \<^verbatim>\<open>OFFSET\<close> or \<^verbatim>\<open>LIMIT\<close>; the HTTP layer passes \<open>page \<ge> 1\<close> and
  \<open>1 \<le> page_size \<le> 100\<close> only.
\<close>

definition matching :: "DeviceStatusDto option \<Rightarrow> DeviceTypeDto option \<Rightarrow> Device list \<Rightarrow> Device list" where
  "matching st ty rows =
     (let q1 = (case st of None \<Rightarrow> rows | Some v \<Rightarrow> filter (\<lambda>d. status d = Some v) rows)
      in (case ty of None \<Rightarrow> q1 | Some t \<Rightarrow> filter (\<lambda>d. dev_type d = Some t) q1))"

definition DeviceDAO_get_all_devices ::
  "session \<Rightarrow> DeviceStatusDto option \<Rightarrow> DeviceTypeDto option \<Rightarrow> int \<Rightarrow> int
     \<Rightarrow> exn + (Device list \<times> nat)" where
  "DeviceDAO_get_all_devices s st ty page page_size =
     (let query = matching st ty (devices s);
          n = length query;
          offset = (page - 1) * page_size
      in if offset < 0 \<or> page_size < 0 then Inl StoreError
         else Inr (take (nat page_size) (drop (nat offset) query), n))"

definition DeviceDAO_get_device_by_id :: "session \<Rightarrow> nat \<Rightarrow> exn + Device option" where
  "DeviceDAO_get_device_by_id s i = query_id s i"

definition DeviceDAO_get_device_by_serial :: "session \<Rightarrow> string \<Rightarrow> exn + Device option" where
  "DeviceDAO_get_device_by_serial s sn = query_serial s sn"

text \<open>
  \<^verbatim>\<open>update_device\<close>: the keyword arguments are the pairs of a dictionary, visited in
  order; a field outside \<open>allowed_fields\<close> is skipped. The four allowed fields are
  attributes of every device, so \<^verbatim>\<open>hasattr\<close> holds for each of them, and the value is
  assigned as it is, \<open>None\<close> included.
\<close>

definition allowed_fields :: "string list" where
  "allowed_fields = [''name'', ''description'', ''location'', ''specifications'']"

definition setattr_device :: "Device \<Rightarrow> string \<Rightarrow> pyval \<Rightarrow> Device" where
  "setattr_device d field v =
     (if field = ''name'' then d\<lparr>name := v\<rparr>
      else if field = ''description'' then d\<lparr>description := v\<rparr>
      else if field = ''location'' then d\<lparr>location := v\<rparr>
      else if field = ''specifications'' then d\<lparr>specifications := v\<rparr>
      else d)"

fun update_fields :: "Device \<Rightarrow> (string \<times> pyval) list \<Rightarrow> Device" where
  "update_fields d [] = d"
| "update_fields d ((field, v) # kwargs) =
     update_fields (if field \<in> set allowed_fields then setattr_device d field v else d) kwargs"

definition DeviceDAO_update_device ::
  "session \<Rightarrow> nat \<Rightarrow> bool \<Rightarrow> nat \<Rightarrow> (string \<times> pyval) list \<Rightarrow> exn + (Device option \<times> session)" where
  "DeviceDAO_update_device s now commit_ok i kwargs =
     (case query_id s i of
        Inl e \<Rightarrow> Inl e
      | Inr None \<Rightarrow> Inr (None, s)
      | Inr (Some device) \<Rightarrow>
          (let d = update_fields device kwargs
           in if commit_ok then Inr (Some (on_update now d), store s now d) else Inr (None, s)))"

text \<open>The truth value of an optional string: \<open>None\<close> and the empty string are false.\<close>

fun truthy :: "string option \<Rightarrow> bool" where
  "truthy None = False"
| "truthy (Some l) = (l \<noteq> [])"

definition DeviceDAO_update_device_status ::
  "session \<Rightarrow> nat \<Rightarrow> bool \<Rightarrow> nat \<Rightarrow> DeviceStatusDto \<Rightarrow> string option
     \<Rightarrow> exn + (Device option \<times> session)" where
  "DeviceDAO_update_device_status s now commit_ok i target loc =
     (case query_id s i of
        Inl e \<Rightarrow> Inl e
      | Inr None \<Rightarrow> Inr (None, s)
      | Inr (Some device) \<Rightarrow>
          (let d1 = device\<lparr>status := Some target\<rparr>;
               d = (if truthy loc then d1\<lparr>location := PyStr (the loc)\<rparr> else d1)
           in if commit_ok then Inr (Some (on_update now d), store s now d) else Inr (None, s)))"

definition DeviceDAO_delete_device :: "session \<Rightarrow> nat \<Rightarrow> bool \<Rightarrow> nat \<Rightarrow> exn + (bool \<times> session)" where
  "DeviceDAO_delete_device s now commit_ok i =
     (case query_id s i of
        Inl e \<Rightarrow> Inl e
      | Inr None \<Rightarrow> Inr (False, s)
      | Inr (Some device) \<Rightarrow>
          (let d = device\<lparr>status := Some RETIRED\<rparr>
           in if commit_ok then Inr (True, store s now d) else Inr (False, s)))"

definition DeviceDAO_get_devices_by_status :: "session \<Rightarrow> DeviceStatusDto \<Rightarrow> Device list" where
  "DeviceDAO_get_devices_by_status s st = filter (\<lambda>d. status d = Some st) (devices s)"

definition DeviceDAO_deploy_device ::
  "session \<Rightarrow> nat \<Rightarrow> bool \<Rightarrow> nat \<Rightarrow> string \<Rightarrow> exn + (Device option \<times> session)" where
  "DeviceDAO_deploy_device s now commit_ok i deployment_location =
     (case query_id s i of
        Inl e \<Rightarrow> Inl e
      | Inr None \<Rightarrow> Inr (None, s)
      | Inr (Some device) \<Rightarrow>
          if status device \<notin> set [Some IN_STOCK, Some RESERVED, Some MAINTENANCE]
          then Inr (None, s)
          else
            (let d = device\<lparr>status := Some DEPLOYED, location := PyStr deployment_location,
                            deploy_date := Some now\<rparr>
             in if commit_ok then Inr (Some (on_update now d), store s now d)
                else Inr (None, s)))"

definition DeviceDAO_recall_device ::
  "session \<Rightarrow> nat \<Rightarrow> bool \<Rightarrow> nat \<Rightarrow> string option \<Rightarrow> exn + (Device option \<times> session)" where
  "DeviceDAO_recall_device s now commit_ok i warehouse_location =
     (case query_id s i of
        Inl e \<Rightarrow> Inl e
      | Inr None \<Rightarrow> Inr (None, s)
      | Inr (Some device) \<Rightarrow>
          if status device \<noteq> Some DEPLOYED then Inr (None, s)
          else
            (let d1 = device\<lparr>status := Some IN_STOCK\<rparr>;
                 d2 = (if truthy warehouse_location
                       then d1\<lparr>location := PyStr (the warehouse_location)\<rparr> else d1);
                 d = d2\<lparr>deploy_date := None\<rparr>
             in if commit_ok then Inr (Some (on_update now d), store s now d)
                else Inr (None, s)))"

definition DeviceDAO_send_to_maintenance ::
  "session \<Rightarrow> nat \<Rightarrow> bool \<Rightarrow> nat \<Rightarrow> exn + (Device option \<times> session)" where
  "DeviceDAO_send_to_maintenance s now commit_ok i =
     (case query_id s i of
        Inl e \<Rightarrow> Inl e
      | Inr None \<Rightarrow> Inr (None, s)
      | Inr (Some device) \<Rightarrow>
          (let d = device\<lparr>status := Some MAINTENANCE, last_maintenance_date := Some now\<rparr>
           in if commit_ok then Inr (Some (on_update now d), store s now d)
              else Inr (None, s)))"

definition DeviceDAO_reserve_device ::
  "session \<Rightarrow> nat \<Rightarrow> bool \<Rightarrow> nat \<Rightarrow> exn + (Device option \<times> session)" where
  "DeviceDAO_reserve_device s now commit_ok i =
     (case query_id s i of
        Inl e \<Rightarrow> Inl e
      | Inr None \<Rightarrow> Inr (None, s)
      | Inr (Some device) \<Rightarrow>
          if status device \<noteq> Some IN_STOCK then Inr (None, s)
          else
            (let d = device\<lparr>status := Some RESERVED\<rparr>
             in if commit_ok then Inr (Some (on_update now d), store s now d)
                else Inr (None, s)))"

definition DeviceDAO_log_action ::
  "session \<Rightarrow> bool \<Rightarrow> nat \<Rightarrow> string \<Rightarrow> string option \<Rightarrow> string option \<Rightarrow> nat option \<Rightarrow> pyval
     \<Rightarrow> bool \<times> session" where
  "DeviceDAO_log_action s commit_ok i act old new by_user notes_text =
     (let log = \<lparr>device_id = i, action = act, old_status = old, new_status = new,
                 performed_by = by_user, log_notes = notes_text\<rparr>
      in if commit_ok then (True, s\<lparr>logs := logs s @ [log]\<rparr>) else (False, s))"

section \<open>The event notifier\<close>

text \<open>
  Modelled from the spec: \<^verbatim>\<open>services/rabbitmq_publisher.py\<close> is outside the embedded
  sources. The notifier is the capability \<open>publish(topic, payload)\<close> with a success or
  failure result; \<open>pub_ok\<close> is that result, and a successful publish appends the message
  to the list of published messages.
\<close>

datatype message =
  DeviceEvent "nat option" pyval string pyval
| Telemetry "nat option" pyval pyval

type_synonym publisher = "message list"

definition publish_device_event ::
  "publisher \<Rightarrow> bool \<Rightarrow> nat option \<Rightarrow> pyval \<Rightarrow> string \<Rightarrow> pyval \<Rightarrow> bool \<times> publisher" where
  "publish_device_event q pub_ok i device_name event_type details =
     (if pub_ok then (True, q @ [DeviceEvent i device_name event_type details]) else (False, q))"

definition publish_telemetry ::
  "publisher \<Rightarrow> bool \<Rightarrow> nat option \<Rightarrow> pyval \<Rightarrow> pyval \<Rightarrow> bool \<times> publisher" where
  "publish_telemetry q pub_ok i device_name data =
     (if pub_ok then (True, q @ [Telemetry i device_name data]) else (False, q))"

section \<open>The controller\<close>

text \<open>
  Requests, with the attributes the controller reads from each. Responses carry the device
  projection; message texts are left out, and a date is carried as it is stored rather
  than as its \<^verbatim>\<open>str()\<close> rendering. The authenticated user is only written to the
  application log, which is left out as well.
\<close>

record DeviceRequest =
  rq_name :: pyval
  rq_type :: DeviceTypeDto
  rq_serial_number :: string
  rq_description :: pyval
  rq_location :: pyval
  rq_specifications :: pyval

record DeviceUpdateRequest =
  up_name :: pyval
  up_description :: pyval
  up_location :: pyval
  up_specifications :: pyval

record DeviceStatusUpdateRequest =
  su_status :: DeviceStatusDto
  su_location :: "string option"
  su_notes :: pyval

record DeployRequest =
  dp_location :: string
  dp_notes :: pyval

record RecallRequest =
  rc_location :: "string option"
  rc_notes :: pyval

record MaintenanceRequest =
  mt_notes :: pyval

record ReserveRequest =
  rs_notes :: pyval

record TelemetryRequest =
  tm_device_id :: nat
  tm_model_dump :: "(string \<times> pyval) list"

record DeviceEventRequest =
  ev_device_id :: nat
  ev_event_type :: string
  ev_details :: pyval

record DeviceResponse =
  r_id :: "nat option"
  r_name :: pyval
  r_type :: "string option"
  r_serial_number :: string
  r_description :: pyval
  r_status :: "string option"
  r_location :: pyval
  r_specifications :: pyval
  r_purchase_date :: "nat option"
  r_deploy_date :: "nat option"
  r_last_maintenance_date :: "nat option"
  r_created_at :: "nat option"
  r_updated_at :: "nat option"

record ActionResponse =
  success :: bool
  device :: "DeviceResponse option"

record DeviceListResponse =
  ls_devices :: "DeviceResponse list"
  ls_total :: nat
  ls_page :: int
  ls_page_size :: int

definition to_response :: "Device \<Rightarrow> DeviceResponse" where
  "to_response d =
     \<lparr>r_id = dev_id d, r_name = name d, r_type = map_option type_value (dev_type d),
      r_serial_number = serial_number d, r_description = description d,
      r_status = map_option status_value (status d), r_location = location d,
      r_specifications = specifications d, r_purchase_date = purchase_date d,
      r_deploy_date = deploy_date d, r_last_maintenance_date = last_maintenance_date d,
      r_created_at = created_at d, r_updated_at = updated_at d\<rparr>"

text \<open>
  \<^verbatim>\<open>GET /devices/\<close>: the query parameters are validated (\<open>page \<ge> 1\<close>,
  \<open>1 \<le> page_size \<le> 100\<close>) before the handler runs.
\<close>

definition get_all_devices ::
  "session \<Rightarrow> DeviceStatusDto option \<Rightarrow> DeviceTypeDto option \<Rightarrow> int \<Rightarrow> int
     \<Rightarrow> exn + DeviceListResponse" where
  "get_all_devices s st ty page page_size =
     (if page < 1 \<or> page_size < 1 \<or> 100 < page_size then Inl (HTTPException 422)
      else
        (case DeviceDAO_get_all_devices s st ty page page_size of
           Inl e \<Rightarrow> Inl e
         | Inr (rows, n) \<Rightarrow>
             Inr \<lparr>ls_devices = map to_response rows, ls_total = n, ls_page = page,
                  ls_page_size = page_size\<rparr>))"

definition get_in_stock_devices :: "session \<Rightarrow> DeviceResponse list" where
  "get_in_stock_devices s = map to_response (DeviceDAO_get_devices_by_status s IN_STOCK)"

definition get_deployed_devices :: "session \<Rightarrow> DeviceResponse list" where
  "get_deployed_devices s = map to_response (DeviceDAO_get_devices_by_status s DEPLOYED)"

definition get_maintenance_devices :: "session \<Rightarrow> DeviceResponse list" where
  "get_maintenance_devices s = map to_response (DeviceDAO_get_devices_by_status s MAINTENANCE)"

definition get_device_by_id :: "session \<Rightarrow> nat \<Rightarrow> exn + DeviceResponse" where
  "get_device_by_id s i =
     (case DeviceDAO_get_device_by_id s i of
        Inl e \<Rightarrow> Inl e
      | Inr None \<Rightarrow> Inl (HTTPException 404)
      | Inr (Some d) \<Rightarrow> Inr (to_response d))"

definition create_device ::
  "session \<Rightarrow> nat \<Rightarrow> bool \<Rightarrow> DeviceRequest \<Rightarrow> (exn + DeviceResponse) \<times> session" where
  "create_device s now commit_ok rq =
     (let d = \<lparr>dev_id = None, name = rq_name rq, dev_type = Some (rq_type rq),
                serial_number = rq_serial_number rq, description = rq_description rq,
                status = None, location = rq_location rq,
                specifications = rq_specifications rq, purchase_date = None,
                deploy_date = None, last_maintenance_date = None, created_at = None,
                updated_at = None\<rparr>
      in (case DeviceDAO_create_device s now commit_ok d of
            Inl e \<Rightarrow> (Inl e, s)
          | Inr (ok, d', s') \<Rightarrow>
              if \<not> ok then (Inl (HTTPException 400), s') else (Inr (to_response d'), s')))"

definition update_device ::
  "session \<Rightarrow> nat \<Rightarrow> bool \<Rightarrow> nat \<Rightarrow> DeviceUpdateRequest \<Rightarrow> (exn + DeviceResponse) \<times> session" where
  "update_device s now commit_ok i rq =
     (case DeviceDAO_update_device s now commit_ok i
             [(''name'', up_name rq), (''description'', up_description rq),
              (''location'', up_location rq), (''specifications'', up_specifications rq)] of
        Inl e \<Rightarrow> (Inl e, s)
      | Inr (None, s') \<Rightarrow> (Inl (HTTPException 404), s')
      | Inr (Some d, s') \<Rightarrow> (Inr (to_response d), s'))"

definition delete_device ::
  "session \<Rightarrow> nat \<Rightarrow> bool \<Rightarrow> nat \<Rightarrow> (exn + ActionResponse) \<times> session" where
  "delete_device s now commit_ok i =
     (case DeviceDAO_delete_device s now commit_ok i of
        Inl e \<Rightarrow> (Inl e, s)
      | Inr (ok, s') \<Rightarrow>
          if \<not> ok then (Inl (HTTPException 404), s')
          else (Inr \<lparr>success = True, device = None\<rparr>, s'))"

text \<open>
  The status endpoints share one shape: read the device for its old status, call the data
  access layer, raise 400 when it returns \<open>None\<close>, then log the action. \<open>log_ok\<close> is
  the outcome of the commit inside \<^verbatim>\<open>log_action\<close>, whose result the controller ignores.
\<close>

definition update_device_status ::
  "session \<Rightarrow> nat \<Rightarrow> bool \<Rightarrow> bool \<Rightarrow> nat \<Rightarrow> DeviceStatusUpdateRequest
     \<Rightarrow> (exn + DeviceResponse) \<times> session" where
  "update_device_status s now commit_ok log_ok i rq =
     (case DeviceDAO_get_device_by_id s i of
        Inl e \<Rightarrow> (Inl e, s)
      | Inr None \<Rightarrow> (Inl (HTTPException 404), s)
      | Inr (Some old_device) \<Rightarrow>
          (let old = map_option status_value (status old_device)
           in (case DeviceDAO_update_device_status s now commit_ok i (su_status rq) (su_location rq) of
                 Inl e \<Rightarrow> (Inl e, s)
               | Inr (None, s1) \<Rightarrow> (Inl (HTTPException 400), s1)
               | Inr (Some d, s1) \<Rightarrow>
                   (let (logged, s2) =
                          DeviceDAO_log_action s1 log_ok i ''status_change'' old
                            (Some (status_value (su_status rq))) None (su_notes rq)
                    in (Inr (to_response d), s2)))))"

definition deploy_device ::
  "session \<Rightarrow> nat \<Rightarrow> bool \<Rightarrow> bool \<Rightarrow> nat \<Rightarrow> DeployRequest
     \<Rightarrow> (exn + ActionResponse) \<times> session" where
  "deploy_device s now commit_ok log_ok i rq =
     (case DeviceDAO_get_device_by_id s i of
        Inl e \<Rightarrow> (Inl e, s)
      | Inr None \<Rightarrow> (Inl (HTTPException 404), s)
      | Inr (Some old_device) \<Rightarrow>
          (let old = map_option status_value (status old_device)
           in (case DeviceDAO_deploy_device s now commit_ok i (dp_location rq) of
                 Inl e \<Rightarrow> (Inl e, s)
               | Inr (None, s1) \<Rightarrow> (Inl (HTTPException 400), s1)
               | Inr (Some d, s1) \<Rightarrow>
                   (let (logged, s2) =
                          DeviceDAO_log_action s1 log_ok i ''deployed'' old (Some ''deployed'')
                            None (dp_notes rq)
                    in (Inr \<lparr>success = True, device = Some (to_response d)\<rparr>, s2)))))"

definition recall_device ::
  "session \<Rightarrow> nat \<Rightarrow> bool \<Rightarrow> bool \<Rightarrow> nat \<Rightarrow> RecallRequest
     \<Rightarrow> (exn + ActionResponse) \<times> session" where
  "recall_device s now commit_ok log_ok i rq =
     (case DeviceDAO_get_device_by_id s i of
        Inl e \<Rightarrow> (Inl e, s)
      | Inr None \<Rightarrow> (Inl (HTTPException 404), s)
      | Inr (Some old_device) \<Rightarrow>
          (let old = map_option status_value (status old_device)
           in (case DeviceDAO_recall_device s now commit_ok i (rc_location rq) of
                 Inl e \<Rightarrow> (Inl e, s)
               | Inr (None, s1) \<Rightarrow> (Inl (HTTPException 400), s1)
               | Inr (Some d, s1) \<Rightarrow>
                   (let (logged, s2) =
                          DeviceDAO_log_action s1 log_ok i ''recalled'' old (Some ''in_stock'')
                            None (rc_notes rq)
                    in (Inr \<lparr>success = True, device = Some (to_response d)\<rparr>, s2)))))"

definition send_to_maintenance ::
  "session \<Rightarrow> nat \<Rightarrow> bool \<Rightarrow> bool \<Rightarrow> nat \<Rightarrow> MaintenanceRequest
     \<Rightarrow> (exn + ActionResponse) \<times> session" where
  "send_to_maintenance s now commit_ok log_ok i rq =
     (case DeviceDAO_get_device_by_id s i of
        Inl e \<Rightarrow> (Inl e, s)
      | Inr None \<Rightarrow> (Inl (HTTPException 404), s)
      | Inr (Some old_device) \<Rightarrow>
          (let old = map_option status_value (status old_device)
           in (case DeviceDAO_send_to_maintenance s now commit_ok i of
                 Inl e \<Rightarrow> (Inl e, s)
               | Inr (None, s1) \<Rightarrow> (Inl (HTTPException 400), s1)
               | Inr (Some d, s1) \<Rightarrow>
                   (let (logged, s2) =
                          DeviceDAO_log_action s1 log_ok i ''maintenance'' old
                            (Some ''maintenance'') None (mt_notes rq)
                    in (Inr \<lparr>success = True, device = Some (to_response d)\<rparr>, s2)))))"

definition reserve_device ::
  "session \<Rightarrow> publisher \<Rightarrow> nat \<Rightarrow> bool \<Rightarrow> bool \<Rightarrow> bool \<Rightarrow> nat \<Rightarrow> ReserveRequest
     \<Rightarrow> (exn + ActionResponse) \<times> session \<times> publisher" where
  "reserve_device s q now commit_ok log_ok pub_ok i rq =
     (case DeviceDAO_get_device_by_id s i of
        Inl e \<Rightarrow> (Inl e, s, q)
      | Inr None \<Rightarrow> (Inl (HTTPException 404), s, q)
      | Inr (Some old_device) \<Rightarrow>
          (let old = map_option status_value (status old_device)
           in (case DeviceDAO_reserve_device s now commit_ok i of
                 Inl e \<Rightarrow> (Inl e, s, q)
               | Inr (None, s1) \<Rightarrow> (Inl (HTTPException 400), s1, q)
               | Inr (Some d, s1) \<Rightarrow>
                   (let (logged, s2) =
                          DeviceDAO_log_action s1 log_ok i ''reserved'' old (Some ''reserved'')
                            None (rs_notes rq);
                        (sent, q') =
                          publish_device_event q pub_ok (dev_id d) (name d) ''device_reserved''
                            (PyDict [(''notes'', rs_notes rq)])
                    in (Inr \<lparr>success = True, device = Some (to_response d)\<rparr>, s2, q')))))"

definition get_device_type :: "session \<Rightarrow> nat \<Rightarrow> exn + (nat \<times> string)" where
  "get_device_type s i =
     (case DeviceDAO_get_device_by_id s i of
        Inl e \<Rightarrow> Inl e
      | Inr None \<Rightarrow> Inl (HTTPException 404)
      | Inr (Some d) \<Rightarrow>
          Inr (i, case dev_type d of Some ty \<Rightarrow> type_value ty | None \<Rightarrow> ''other''))"

text \<open>
  \<^verbatim>\<open>POST /devices/telemetry\<close>: the payload is the dump of the request without its base
  fields.
\<close>

definition receive_telemetry ::
  "session \<Rightarrow> publisher \<Rightarrow> bool \<Rightarrow> TelemetryRequest \<Rightarrow> (exn + ActionResponse) \<times> publisher" where
  "receive_telemetry s q pub_ok rq =
     (case DeviceDAO_get_device_by_id s (tm_device_id rq) of
        Inl e \<Rightarrow> (Inl e, q)
      | Inr None \<Rightarrow> (Inl (HTTPException 404), q)
      | Inr (Some d) \<Rightarrow>
          if status d \<noteq> Some DEPLOYED then (Inl (HTTPException 400), q)
          else
            (let telemetry_dict =
                   filter (\<lambda>(k, v). k \<notin> set [''device_id'', ''device_name'', ''timestamp'', ''location''])
                     (tm_model_dump rq);
                 (sent, q') = publish_telemetry q pub_ok (dev_id d) (name d) (PyDict telemetry_dict)
             in if \<not> sent then (Inl (HTTPException 500), q')
                else (Inr \<lparr>success = True, device = None\<rparr>, q')))"

text \<open>The truth value of a Python value, and the decimal rendering of an identifier.\<close>

fun py_truthy :: "pyval \<Rightarrow> bool" where
  "py_truthy PyNone = False"
| "py_truthy (PyStr x) = (x \<noteq> [])"
| "py_truthy (PyDict kvs) = (kvs \<noteq> [])"

fun str_nat :: "nat \<Rightarrow> string" where
  "str_nat n =
     (if n < 10 then [char_of (48 + n)]
      else str_nat (n div 10) @ [char_of (48 + n mod 10)])"

declare str_nat.simps [simp del]

text \<open>\<^verbatim>\<open>POST /devices/events\<close>: the handler has no session.\<close>

definition receive_event ::
  "publisher \<Rightarrow> bool \<Rightarrow> DeviceEventRequest \<Rightarrow> (exn + ActionResponse) \<times> publisher" where
  "receive_event q pub_ok rq =
     (let (sent, q') =
            publish_device_event q pub_ok (Some (ev_device_id rq))
              (PyStr (''Device-'' @ str_nat (ev_device_id rq))) (ev_event_type rq)
              (if py_truthy (ev_details rq) then ev_details rq else PyDict [])
      in if \<not> sent then (Inl (HTTPException 500), q')
         else (Inr \<lparr>success = True, device = None\<rparr>, q'))"

section \<open>The service as a whole\<close>

text \<open>
  One request to a handler that can change the store or publish, with the time and the
  outcomes of the commits and of the publish it meets. The service starts on empty tables
  and serves requests one after the other.
\<close>

datatype call =
  CreateDevice nat bool DeviceRequest
| UpdateDevice nat bool nat DeviceUpdateRequest
| DeleteDevice nat bool nat
| UpdateDeviceStatus nat bool bool nat DeviceStatusUpdateRequest
| DeployDevice nat bool bool nat DeployRequest
| RecallDevice nat bool bool nat RecallRequest
| SendToMaintenance nat bool bool nat MaintenanceRequest
| ReserveDevice nat bool bool bool nat ReserveRequest
| ReceiveTelemetry bool TelemetryRequest
| ReceiveEvent bool DeviceEventRequest

fun step :: "session \<times> publisher \<Rightarrow> call \<Rightarrow> session \<times> publisher" where
  "step (s, q) (CreateDevice now c rq) = (snd (create_device s now c rq), q)"
| "step (s, q) (UpdateDevice now c i rq) = (snd (update_device s now c i rq), q)"
| "step (s, q) (DeleteDevice now c i) = (snd (delete_device s now c i), q)"
| "step (s, q) (UpdateDeviceStatus now c l i rq) = (snd (update_device_status s now c l i rq), q)"
| "step (s, q) (DeployDevice now c l i rq) = (snd (deploy_device s now c l i rq), q)"
| "step (s, q) (RecallDevice now c l i rq) = (snd (recall_device s now c l i rq), q)"
| "step (s, q) (SendToMaintenance now c l i rq) = (snd (send_to_maintenance s now c l i rq), q)"
| "step (s, q) (ReserveDevice now c l p i rq) = snd (reserve_device s q now c l p i rq)"
| "step (s, q) (ReceiveTelemetry p rq) = (s, snd (receive_telemetry s q p rq))"
| "step (s, q) (ReceiveEvent p rq) = (s, snd (receive_event q p rq))"

definition initial :: "session \<times> publisher" where
  "initial = (\<lparr>devices = [], logs = [], next_id = 1\<rparr>, [])"

definition run :: "call list \<Rightarrow> session \<times> publisher" where
  "run calls = foldl step initial calls"

text \<open>
  What the tables of a running service satisfy: identifiers and serial numbers are not
  repeated, every device has an identifier the table has already assigned and a status,
  and every log row refers to an identifier the table has assigned.
\<close>

fun assigned :: "nat \<Rightarrow> nat option \<Rightarrow> bool" where
  "assigned n None = False"
| "assigned n (Some i) = (i < n)"

definition session_ok :: "session \<Rightarrow> bool" where
  "session_ok s \<longleftrightarrow>
     distinct (map dev_id (devices s)) \<and>
     distinct (map serial_number (devices s)) \<and>
     list_all (\<lambda>d. assigned (next_id s) (dev_id d)) (devices s) \<and>
     list_all (\<lambda>d. status d \<noteq> None) (devices s) \<and>
     list_all (\<lambda>l. device_id l < next_id s) (logs s)"

text \<open>The log rows of one device, in insertion order.\<close>

definition logs_of :: "session \<Rightarrow> nat \<Rightarrow> DeviceLog list" where
  "logs_of s i = filter (\<lambda>l. device_id l = i) (logs s)"

text \<open>
  A status change of device \<open>i\<close> from state \<open>s\<close> to state \<open>s'\<close> is audited when the
  log of \<open>s'\<close> is the log of \<open>s\<close> followed by one row for the device that names the
  action and records the status the device had in \<open>s\<close> and the one it has in \<open>s'\<close>.
\<close>

definition audited :: "session \<Rightarrow> nat \<Rightarrow> string \<Rightarrow> pyval \<Rightarrow> session \<Rightarrow> bool" where
  "audited s i act n s' =
     (case (DeviceDAO_get_device_by_id s i, DeviceDAO_get_device_by_id s' i) of
        (Inr (Some d), Inr (Some d')) \<Rightarrow>
          logs s' = logs s @
            [\<lparr>device_id = i, action = act, old_status = map_option status_value (status d),
              new_status = map_option status_value (status d'), performed_by = None,
              log_notes = n\<rparr>]
      | _ \<Rightarrow> False)"

section \<open>A small inventory\<close>

text \<open>One sensor, as the service stores it after the first create request at time 10.\<close>

definition example_request :: DeviceRequest where
  "example_request =
     \<lparr>rq_name = PyStr ''probe'', rq_type = SENSOR, rq_serial_number = ''SN-1'',
      rq_description = PyStr ''soil probe'', rq_location = PyStr ''Shelf-3'',
      rq_specifications = PyDict [(''range'', PyStr ''10m'')]\<rparr>"

definition example_device :: Device where
  "example_device =
     \<lparr>dev_id = Some 1, name = PyStr ''probe'', dev_type = Some SENSOR,
      serial_number = ''SN-1'', description = PyStr ''soil probe'', status = Some IN_STOCK,
      location = PyStr ''Shelf-3'', specifications = PyDict [(''range'', PyStr ''10m'')],
      purchase_date = Some 10, deploy_date = None, last_maintenance_date = None,
      created_at = Some 10, updated_at = Some 10\<rparr>"

definition example_session :: session where
  "example_session = \<lparr>devices = [example_device], logs = [], next_id = 2\<rparr>"


text \<open>The same sensor after it has been retired at time 15.\<close>

definition retired_device :: Device where
  "retired_device = example_device\<lparr>status := Some RETIRED, updated_at := Some 15\<rparr>"

definition retired_session :: session where
  "retired_session = \<lparr>devices = [retired_device], logs = [], next_id = 2\<rparr>"

text \<open>The same sensor after it has been deployed at time 12.\<close>

definition deployed_device :: Device where
  "deployed_device =
     example_device\<lparr>status := Some DEPLOYED, location := PyStr ''Field-7'',
       deploy_date := Some 12, updated_at := Some 12\<rparr>"

definition deployed_session :: session where
  "deployed_session = \<lparr>devices = [deployed_device], logs = [], next_id = 2\<rparr>"

text \<open>Three sensors in stock.\<close>

definition second_device :: Device where
  "second_device = example_device\<lparr>dev_id := Some 2, serial_number := ''SN-2''\<rparr>"

definition third_device :: Device where
  "third_device = example_device\<lparr>dev_id := Some 3, serial_number := ''SN-3''\<rparr>"

definition three_session :: session where
  "three_session =
     \<lparr>devices = [example_device, second_device, third_device], logs = [], next_id = 4\<rparr>"

section \<open>Queries and committed rows\<close>

lemma one_or_none_Some: "one_or_none xs = Inr (Some x) \<longleftrightarrow> xs = [x]"
  by (auto simp: one_or_none_def split: list.splits)

lemma one_or_none_None: "one_or_none xs = Inr None \<longleftrightarrow> xs = []"
  by (auto simp: one_or_none_def split: list.splits)

lemma filter_replace:
  "filter P xs = [d] \<Longrightarrow> P d' \<Longrightarrow> filter P (map (\<lambda>x. if P x then d' else x) xs) = [d']"
proof (induction xs arbitrary: d)
  case Nil
  then show ?case by simp
next
  case (Cons x xs)
  show ?case
  proof (cases "P x")
    case True
    with Cons.prems have "filter P xs = []" by simp
    then have "\<forall>y\<in>set xs. \<not> P y" by (simp add: filter_empty_conv)
    then have "map (\<lambda>x. if P x then d' else x) xs = xs" by (simp add: map_idI)
    with True Cons.prems \<open>filter P xs = []\<close> show ?thesis by simp
  next
    case False
    with Cons show ?thesis by simp
  qed
qed

lemma filter_replace_other:
  "\<not> Q d' \<Longrightarrow> (\<And>x. P x \<Longrightarrow> \<not> Q x) \<Longrightarrow> filter Q (map (\<lambda>x. if P x then d' else x) xs) = filter Q xs"
  by (induction xs) auto

lemma query_id_SomeD:
  "query_id s i = Inr (Some d) \<Longrightarrow> filter (\<lambda>x. dev_id x = Some i) (devices s) = [d]"
  by (simp add: query_id_def one_or_none_Some)

lemma query_id_dev_id: "query_id s i = Inr (Some d) \<Longrightarrow> dev_id d = Some i"
proof -
  assume "query_id s i = Inr (Some d)"
  then have "d \<in> set (filter (\<lambda>x. dev_id x = Some i) (devices s))"
    by (simp add: query_id_SomeD)
  then show ?thesis by simp
qed

lemma query_id_mem: "query_id s i = Inr (Some d) \<Longrightarrow> d \<in> set (devices s)"
proof -
  assume "query_id s i = Inr (Some d)"
  then have "d \<in> set (filter (\<lambda>x. dev_id x = Some i) (devices s))"
    by (simp add: query_id_SomeD)
  then show ?thesis by simp
qed

lemma devices_store:
  "dev_id d' = Some i \<Longrightarrow>
   devices (store s now d') = map (\<lambda>x. if dev_id x = Some i then on_update now d' else x) (devices s)"
  by (simp add: store_def)

lemma query_id_store:
  assumes "query_id s i = Inr (Some d)" and "dev_id d' = Some i"
  shows "query_id (store s now d') i = Inr (Some (on_update now d'))"
proof -
  have "dev_id (on_update now d') = Some i" using assms(2) by (simp add: on_update_def)
  with query_id_SomeD[OF assms(1)] show ?thesis
    by (simp add: query_id_def devices_store[OF assms(2)] one_or_none_Some filter_replace)
qed

lemma query_id_store_other:
  assumes "dev_id d' = Some i" and "j \<noteq> i"
  shows "query_id (store s now d') j = query_id s j"
proof -
  have "dev_id (on_update now d') = Some i" using assms(1) by (simp add: on_update_def)
  then have "filter (\<lambda>x. dev_id x = Some j) (map (\<lambda>x. if dev_id x = Some i then on_update now d' else x) (devices s))
      = filter (\<lambda>x. dev_id x = Some j) (devices s)"
    using assms(2) by (intro filter_replace_other) auto
  then show ?thesis
    by (simp add: query_id_def devices_store[OF assms(1)])
qed

lemma store_logs [simp]: "logs (store s now d) = logs s"
  by (simp add: store_def)

lemma store_next_id [simp]: "next_id (store s now d) = next_id s"
  by (simp add: store_def)

lemma example_session_run: "fst (run [CreateDevice 10 True example_request]) = example_session"
  by (simp add: run_def initial_def create_device_def DeviceDAO_create_device_def query_serial_def
      one_or_none_def insert_defaults_def example_request_def example_session_def example_device_def Let_def)

lemma example_get: "DeviceDAO_get_device_by_id example_session 1 = Inr (Some example_device)"
  by (simp add: DeviceDAO_get_device_by_id_def query_id_def one_or_none_def example_session_def example_device_def)


lemma setattr_device_frame:
  "dev_id (setattr_device d f v) = dev_id d \<and> dev_type (setattr_device d f v) = dev_type d \<and>
   serial_number (setattr_device d f v) = serial_number d \<and>
   status (setattr_device d f v) = status d \<and>
   purchase_date (setattr_device d f v) = purchase_date d \<and>
   deploy_date (setattr_device d f v) = deploy_date d \<and>
   last_maintenance_date (setattr_device d f v) = last_maintenance_date d \<and>
   created_at (setattr_device d f v) = created_at d \<and>
   updated_at (setattr_device d f v) = updated_at d"
  by (simp add: setattr_device_def)

lemma update_fields_frame:
  "dev_id (update_fields d kw) = dev_id d \<and> dev_type (update_fields d kw) = dev_type d \<and>
   serial_number (update_fields d kw) = serial_number d \<and>
   status (update_fields d kw) = status d \<and>
   purchase_date (update_fields d kw) = purchase_date d \<and>
   deploy_date (update_fields d kw) = deploy_date d \<and>
   last_maintenance_date (update_fields d kw) = last_maintenance_date d \<and>
   created_at (update_fields d kw) = created_at d \<and>
   updated_at (update_fields d kw) = updated_at d"
proof (induction kw arbitrary: d)
  case Nil
  show ?case by simp
next
  case (Cons p kw)
  obtain f v where p: "p = (f, v)" by (cases p)
  show ?case unfolding p using Cons.IH[of "setattr_device d f v"] Cons.IH[of d] setattr_device_frame[of d f v]
    by simp
qed

section \<open>What every state of the service satisfies\<close>

lemma map_replace_same:
  "(\<And>x. x \<in> set xs \<Longrightarrow> P x \<Longrightarrow> f d' = f x) \<Longrightarrow>
   map f (map (\<lambda>x. if P x then d' else x) xs) = map f xs"
  by (induction xs) auto

lemma list_all_replace:
  "list_all Q xs \<Longrightarrow> Q d' \<Longrightarrow> list_all Q (map (\<lambda>x. if P x then d' else x) xs)"
  by (induction xs) auto

lemma session_ok_store:
  assumes ok: "session_ok s" and q: "query_id s i = Inr (Some d)"
    and i: "dev_id d' = Some i" and sn: "serial_number d' = serial_number d"
    and st: "status d' \<noteq> None"
  shows "session_ok (store s now d')"
proof -
  let ?u = "on_update now d'"
  let ?P = "\<lambda>x. dev_id x = Some i"
  have dv: "devices (store s now d') = map (\<lambda>x. if ?P x then ?u else x) (devices s)"
    by (rule devices_store[OF i])
  have only: "x = d" if "x \<in> set (devices s)" "?P x" for x
  proof -
    from that have "x \<in> set (filter ?P (devices s))" by simp
    then show ?thesis by (simp add: query_id_SomeD[OF q])
  qed
  have ids: "map dev_id (devices (store s now d')) = map dev_id (devices s)"
    unfolding dv using i by (intro map_replace_same) (simp add: on_update_def)
  have sns: "map serial_number (devices (store s now d')) = map serial_number (devices s)"
    unfolding dv using sn only by (intro map_replace_same) (auto simp: on_update_def)
  have lt: "i < next_id s"
  proof -
    have "d \<in> set (devices s)" by (rule query_id_mem[OF q])
    moreover have "dev_id d = Some i" by (rule query_id_dev_id[OF q])
    ultimately show ?thesis using ok by (auto simp: session_ok_def list_all_iff)
  qed
  have a: "list_all (\<lambda>d. assigned (next_id s) (dev_id d)) (devices (store s now d'))"
    unfolding dv using ok i lt by (intro list_all_replace) (simp_all add: session_ok_def on_update_def)
  have b: "list_all (\<lambda>d. status d \<noteq> None) (devices (store s now d'))"
    unfolding dv using ok st by (intro list_all_replace) (simp_all add: session_ok_def on_update_def)
  show ?thesis
    using ok ids sns a b by (simp add: session_ok_def)
qed

lemma session_ok_query_lt:
  "session_ok s \<Longrightarrow> query_id s i = Inr (Some d) \<Longrightarrow> i < next_id s"
  using query_id_mem[of s i d] query_id_dev_id[of s i d]
  by (auto simp: session_ok_def list_all_iff)

lemma session_ok_query_status:
  "session_ok s \<Longrightarrow> query_id s i = Inr (Some d) \<Longrightarrow> status d \<noteq> None"
  using query_id_mem[of s i d]
  by (auto simp: session_ok_def list_all_iff)

lemma session_ok_log_action:
  "session_ok s \<Longrightarrow> i < next_id s \<Longrightarrow> session_ok (snd (DeviceDAO_log_action s ok i a old new u n))"
  by (simp add: DeviceDAO_log_action_def session_ok_def Let_def)

lemma session_ok_create:
  assumes ok: "session_ok s" and r: "DeviceDAO_create_device s now c dev = Inr (b, d', s')"
  shows "session_ok s'"
proof (cases "query_serial s (serial_number dev) = Inr None \<and> c")
  case False
  then have "s' = s" using r
    by (auto simp: DeviceDAO_create_device_def split: sum.splits option.splits if_splits)
  with ok show ?thesis by simp
next
  case True
  then have s': "s' = s\<lparr>devices := devices s @ [insert_defaults (next_id s) now dev],
                         next_id := Suc (next_id s)\<rparr>"
    using r by (auto simp: DeviceDAO_create_device_def Let_def)
  from True have "filter (\<lambda>d. serial_number d = serial_number dev) (devices s) = []"
    by (simp add: query_serial_def one_or_none_None)
  then have fresh: "serial_number dev \<notin> serial_number ` set (devices s)"
    by (auto simp: filter_empty_conv)
  have idfresh: "Some (next_id s) \<notin> dev_id ` set (devices s)"
  proof
    assume "Some (next_id s) \<in> dev_id ` set (devices s)"
    then obtain x where x: "x \<in> set (devices s)" "dev_id x = Some (next_id s)" by auto
    from ok x(1) have "assigned (next_id s) (dev_id x)"
      by (simp add: session_ok_def list_all_iff)
    with x(2) show False by simp
  qed
  have "assigned (Suc n) x" if "assigned n x" for n x
    using that by (cases x) auto
  then have lt: "list_all (\<lambda>d. assigned (Suc (next_id s)) (dev_id d)) (devices s)"
    using ok by (auto simp: session_ok_def list_all_iff)
  have lg: "list_all (\<lambda>l. device_id l < Suc (next_id s)) (logs s)"
    using ok by (auto simp: session_ok_def list_all_iff)
  show ?thesis
    unfolding s' using ok fresh idfresh lt lg
    by (simp add: session_ok_def insert_defaults_def)
qed

lemma session_ok_commit:
  assumes "session_ok s" and "query_id s i = Inr (Some d)"
    and "dev_id d' = dev_id d" and "serial_number d' = serial_number d"
    and "status d' \<noteq> None" and "s' = s \<or> s' = store s now d'"
  shows "session_ok s' \<and> next_id s' = next_id s"
proof -
  have "dev_id d' = Some i" using assms(2,3) by (simp add: query_id_dev_id)
  with assms(1,2) have "session_ok (store s now d')"
    using assms(4,5) by (rule session_ok_store)
  with assms(1,6) show ?thesis by auto
qed

lemma session_ok_DAO_reserve_device:
  assumes ok: "session_ok s" and r: "DeviceDAO_reserve_device s now c i = Inr (r, s')"
  shows "session_ok s' \<and> next_id s' = next_id s"
proof (cases "query_id s i")
  case (Inl e)
  with r show ?thesis by (simp add: DeviceDAO_reserve_device_def)
next
  case (Inr found)
  show ?thesis
  proof (cases found)
    case None
    with Inr r ok show ?thesis by (auto simp: DeviceDAO_reserve_device_def)
  next
    case (Some d)
    with Inr have q: "query_id s i = Inr (Some d)" by simp
    let ?d = "d\<lparr>status := Some RESERVED\<rparr>"
    have f: "dev_id ?d = dev_id d" "serial_number ?d = serial_number d" "status ?d \<noteq> None"
      by simp_all
    have "s' = s \<or> s' = store s now ?d"
      using r q by (auto simp: DeviceDAO_reserve_device_def Let_def split: if_splits)
    with ok q f show ?thesis by (rule session_ok_commit)
  qed
qed

lemma session_ok_DAO_deploy_device:
  assumes ok: "session_ok s" and r: "DeviceDAO_deploy_device s now c i loc = Inr (r, s')"
  shows "session_ok s' \<and> next_id s' = next_id s"
proof (cases "query_id s i")
  case (Inl e)
  with r show ?thesis by (simp add: DeviceDAO_deploy_device_def)
next
  case (Inr found)
  show ?thesis
  proof (cases found)
    case None
    with Inr r ok show ?thesis by (auto simp: DeviceDAO_deploy_device_def)
  next
    case (Some d)
    with Inr have q: "query_id s i = Inr (Some d)" by simp
    let ?d = "d\<lparr>status := Some DEPLOYED, location := PyStr loc, deploy_date := Some now\<rparr>"
    have f: "dev_id ?d = dev_id d" "serial_number ?d = serial_number d" "status ?d \<noteq> None"
      by simp_all
    have "s' = s \<or> s' = store s now ?d"
      using r q by (auto simp: DeviceDAO_deploy_device_def Let_def split: if_splits)
    with ok q f show ?thesis by (rule session_ok_commit)
  qed
qed

lemma session_ok_DAO_recall_device:
  assumes ok: "session_ok s" and r: "DeviceDAO_recall_device s now c i loc = Inr (r, s')"
  shows "session_ok s' \<and> next_id s' = next_id s"
proof (cases "query_id s i")
  case (Inl e)
  with r show ?thesis by (simp add: DeviceDAO_recall_device_def)
next
  case (Inr found)
  show ?thesis
  proof (cases found)
    case None
    with Inr r ok show ?thesis by (auto simp: DeviceDAO_recall_device_def)
  next
    case (Some d)
    with Inr have q: "query_id s i = Inr (Some d)" by simp
    let ?d = "(if truthy loc then d\<lparr>status := Some IN_STOCK, location := PyStr (the loc)\<rparr> else d\<lparr>status := Some IN_STOCK\<rparr>)\<lparr>deploy_date := None\<rparr>"
    have f: "dev_id ?d = dev_id d" "serial_number ?d = serial_number d" "status ?d \<noteq> None"
      by simp_all
    have "s' = s \<or> s' = store s now ?d"
      using r q by (auto simp: DeviceDAO_recall_device_def Let_def split: if_splits)
    with ok q f show ?thesis by (rule session_ok_commit)
  qed
qed

lemma session_ok_DAO_send_to_maintenance:
  assumes ok: "session_ok s" and r: "DeviceDAO_send_to_maintenance s now c i = Inr (r, s')"
  shows "session_ok s' \<and> next_id s' = next_id s"
proof (cases "query_id s i")
  case (Inl e)
  with r show ?thesis by (simp add: DeviceDAO_send_to_maintenance_def)
next
  case (Inr found)
  show ?thesis
  proof (cases found)
    case None
    with Inr r ok show ?thesis by (auto simp: DeviceDAO_send_to_maintenance_def)
  next
    case (Some d)
    with Inr have q: "query_id s i = Inr (Some d)" by simp
    let ?d = "d\<lparr>status := Some MAINTENANCE, last_maintenance_date := Some now\<rparr>"
    have f: "dev_id ?d = dev_id d" "serial_number ?d = serial_number d" "status ?d \<noteq> None"
      by simp_all
    have "s' = s \<or> s' = store s now ?d"
      using r q by (auto simp: DeviceDAO_send_to_maintenance_def Let_def split: if_splits)
    with ok q f show ?thesis by (rule session_ok_commit)
  qed
qed

lemma session_ok_DAO_update_device_status:
  assumes ok: "session_ok s" and r: "DeviceDAO_update_device_status s now c i target loc = Inr (r, s')"
  shows "session_ok s' \<and> next_id s' = next_id s"
proof (cases "query_id s i")
  case (Inl e)
  with r show ?thesis by (simp add: DeviceDAO_update_device_status_def)
next
  case (Inr found)
  show ?thesis
  proof (cases found)
    case None
    with Inr r ok show ?thesis by (auto simp: DeviceDAO_update_device_status_def)
  next
    case (Some d)
    with Inr have q: "query_id s i = Inr (Some d)" by simp
    let ?d = "(if truthy loc then d\<lparr>status := Some target, location := PyStr (the loc)\<rparr> else d\<lparr>status := Some target\<rparr>)"
    have f: "dev_id ?d = dev_id d" "serial_number ?d = serial_number d" "status ?d \<noteq> None"
      by simp_all
    have "s' = s \<or> s' = store s now ?d"
      using r q by (auto simp: DeviceDAO_update_device_status_def Let_def split: if_splits)
    with ok q f show ?thesis by (rule session_ok_commit)
  qed
qed

lemma session_ok_DAO_update_device:
  assumes ok: "session_ok s" and r: "DeviceDAO_update_device s now c i kwargs = Inr (r, s')"
  shows "session_ok s' \<and> next_id s' = next_id s"
proof (cases "query_id s i")
  case (Inl e)
  with r show ?thesis by (simp add: DeviceDAO_update_device_def)
next
  case (Inr found)
  show ?thesis
  proof (cases found)
    case None
    with Inr r ok show ?thesis by (auto simp: DeviceDAO_update_device_def)
  next
    case (Some d)
    with Inr have q: "query_id s i = Inr (Some d)" by simp
    let ?d = "update_fields d kwargs"
    have f: "dev_id ?d = dev_id d" "serial_number ?d = serial_number d" "status ?d \<noteq> None"
      using update_fields_frame[of d kwargs] session_ok_query_status[OF ok q] by simp_all
    have "s' = s \<or> s' = store s now ?d"
      using r q by (auto simp: DeviceDAO_update_device_def Let_def split: if_splits)
    with ok q f show ?thesis by (rule session_ok_commit)
  qed
qed

lemma session_ok_DAO_delete_device:
  assumes ok: "session_ok s" and r: "DeviceDAO_delete_device s now c i = Inr (r, s')"
  shows "session_ok s' \<and> next_id s' = next_id s"
proof (cases "query_id s i")
  case (Inl e)
  with r show ?thesis by (simp add: DeviceDAO_delete_device_def)
next
  case (Inr found)
  show ?thesis
  proof (cases found)
    case None
    with Inr r ok show ?thesis by (auto simp: DeviceDAO_delete_device_def)
  next
    case (Some d)
    with Inr have q: "query_id s i = Inr (Some d)" by simp
    let ?d = "d\<lparr>status := Some RETIRED\<rparr>"
    have f: "dev_id ?d = dev_id d" "serial_number ?d = serial_number d" "status ?d \<noteq> None"
      by simp_all
    have "s' = s \<or> s' = store s now ?d"
      using r q by (auto simp: DeviceDAO_delete_device_def Let_def split: if_splits)
    with ok q f show ?thesis by (rule session_ok_commit)
  qed
qed

lemma session_ok_create_device:
  assumes "session_ok s"
  shows "session_ok (snd (create_device s now c rq))"
proof -
  let ?d = "\<lparr>dev_id = None, name = rq_name rq, dev_type = Some (rq_type rq),
                serial_number = rq_serial_number rq, description = rq_description rq,
                status = None, location = rq_location rq,
                specifications = rq_specifications rq, purchase_date = None,
                deploy_date = None, last_maintenance_date = None, created_at = None,
                updated_at = None\<rparr>"
  show ?thesis
  proof (cases "DeviceDAO_create_device s now c ?d")
    case (Inl e)
    with assms show ?thesis by (simp add: create_device_def)
  next
    case (Inr res)
    obtain b d' s' where res: "res = (b, d', s')" by (cases res)
    from session_ok_create[OF assms Inr[unfolded res]] have "session_ok s'" .
    with Inr res show ?thesis by (simp add: create_device_def)
  qed
qed

lemma session_ok_update_device:
  assumes "session_ok s"
  shows "session_ok (snd (update_device s now c i rq))"
proof -
  let ?kw = "[(''name'', up_name rq), (''description'', up_description rq),
              (''location'', up_location rq), (''specifications'', up_specifications rq)]"
  show ?thesis
  proof (cases "DeviceDAO_update_device s now c i ?kw")
    case (Inl e)
    with assms show ?thesis by (simp add: update_device_def)
  next
    case (Inr res)
    obtain r s' where res: "res = (r, s')" by (cases res)
    from session_ok_DAO_update_device[OF assms Inr[unfolded res]] have "session_ok s'" by simp
    with Inr res show ?thesis by (simp add: update_device_def split: option.splits)
  qed
qed

lemma session_ok_delete_device:
  assumes "session_ok s"
  shows "session_ok (snd (delete_device s now c i))"
proof (cases "DeviceDAO_delete_device s now c i")
  case (Inl e)
  with assms show ?thesis by (simp add: delete_device_def)
next
  case (Inr res)
  obtain r s' where res: "res = (r, s')" by (cases res)
  from session_ok_DAO_delete_device[OF assms Inr[unfolded res]] have "session_ok s'" by simp
  with Inr res show ?thesis by (simp add: delete_device_def)
qed

lemma session_ok_update_device_status:
  assumes "session_ok s"
  shows "session_ok (snd (update_device_status s now c l i rq))"
proof (cases "DeviceDAO_get_device_by_id s i")
  case (Inl e)
  with assms show ?thesis by (simp add: update_device_status_def)
next
  case (Inr found)
  show ?thesis
  proof (cases found)
    case None
    with Inr assms show ?thesis by (simp add: update_device_status_def)
  next
    case (Some old_device)
    then have q: "query_id s i = Inr (Some old_device)"
      using Inr by (simp add: DeviceDAO_get_device_by_id_def)
    have lt: "i < next_id s" by (rule session_ok_query_lt[OF assms q])
    show ?thesis
    proof (cases "DeviceDAO_update_device_status s now c i (su_status rq) (su_location rq)")
      case (Inl e)
      with Inr Some assms show ?thesis by (simp add: update_device_status_def)
    next
      case r: (Inr res)
      obtain x s1 where res: "res = (x, s1)" by (cases res)
      from session_ok_DAO_update_device_status[OF assms r[unfolded res]]
      have s1: "session_ok s1" "next_id s1 = next_id s" by simp_all
      show ?thesis
      proof (cases x)
        case None
        with Inr Some r res s1 show ?thesis by (simp add: update_device_status_def)
      next
        case d: (Some d)
        have "session_ok (snd (DeviceDAO_log_action s1 l i a old new u n))" for a old new u n
          using s1 lt by (intro session_ok_log_action) simp_all
        with Inr Some r res d show ?thesis
          by (simp add: update_device_status_def Let_def case_prod_beta)
      qed
    qed
  qed
qed

lemma session_ok_deploy_device:
  assumes "session_ok s"
  shows "session_ok (snd (deploy_device s now c l i rq))"
proof (cases "DeviceDAO_get_device_by_id s i")
  case (Inl e)
  with assms show ?thesis by (simp add: deploy_device_def)
next
  case (Inr found)
  show ?thesis
  proof (cases found)
    case None
    with Inr assms show ?thesis by (simp add: deploy_device_def)
  next
    case (Some old_device)
    then have q: "query_id s i = Inr (Some old_device)"
      using Inr by (simp add: DeviceDAO_get_device_by_id_def)
    have lt: "i < next_id s" by (rule session_ok_query_lt[OF assms q])
    show ?thesis
    proof (cases "DeviceDAO_deploy_device s now c i (dp_location rq)")
      case (Inl e)
      with Inr Some assms show ?thesis by (simp add: deploy_device_def)
    next
      case r: (Inr res)
      obtain x s1 where res: "res = (x, s1)" by (cases res)
      from session_ok_DAO_deploy_device[OF assms r[unfolded res]]
      have s1: "session_ok s1" "next_id s1 = next_id s" by simp_all
      show ?thesis
      proof (cases x)
        case None
        with Inr Some r res s1 show ?thesis by (simp add: deploy_device_def)
      next
        case d: (Some d)
        have "session_ok (snd (DeviceDAO_log_action s1 l i a old new u n))" for a old new u n
          using s1 lt by (intro session_ok_log_action) simp_all
        with Inr Some r res d show ?thesis
          by (simp add: deploy_device_def Let_def case_prod_beta)
      qed
    qed
  qed
qed

lemma session_ok_recall_device:
  assumes "session_ok s"
  shows "session_ok (snd (recall_device s now c l i rq))"
proof (cases "DeviceDAO_get_device_by_id s i")
  case (Inl e)
  with assms show ?thesis by (simp add: recall_device_def)
next
  case (Inr found)
  show ?thesis
  proof (cases found)
    case None
    with Inr assms show ?thesis by (simp add: recall_device_def)
  next
    case (Some old_device)
    then have q: "query_id s i = Inr (Some old_device)"
      using Inr by (simp add: DeviceDAO_get_device_by_id_def)
    have lt: "i < next_id s" by (rule session_ok_query_lt[OF assms q])
    show ?thesis
    proof (cases "DeviceDAO_recall_device s now c i (rc_location rq)")
      case (Inl e)
      with Inr Some assms show ?thesis by (simp add: recall_device_def)
    next
      case r: (Inr res)
      obtain x s1 where res: "res = (x, s1)" by (cases res)
      from session_ok_DAO_recall_device[OF assms r[unfolded res]]
      have s1: "session_ok s1" "next_id s1 = next_id s" by simp_all
      show ?thesis
      proof (cases x)
        case None
        with Inr Some r res s1 show ?thesis by (simp add: recall_device_def)
      next
        case d: (Some d)
        have "session_ok (snd (DeviceDAO_log_action s1 l i a old new u n))" for a old new u n
          using s1 lt by (intro session_ok_log_action) simp_all
        with Inr Some r res d show ?thesis
          by (simp add: recall_device_def Let_def case_prod_beta)
      qed
    qed
  qed
qed

lemma session_ok_send_to_maintenance:
  assumes "session_ok s"
  shows "session_ok (snd (send_to_maintenance s now c l i rq))"
proof (cases "DeviceDAO_get_device_by_id s i")
  case (Inl e)
  with assms show ?thesis by (simp add: send_to_maintenance_def)
next
  case (Inr found)
  show ?thesis
  proof (cases found)
    case None
    with Inr assms show ?thesis by (simp add: send_to_maintenance_def)
  next
    case (Some old_device)
    then have q: "query_id s i = Inr (Some old_device)"
      using Inr by (simp add: DeviceDAO_get_device_by_id_def)
    have lt: "i < next_id s" by (rule session_ok_query_lt[OF assms q])
    show ?thesis
    proof (cases "DeviceDAO_send_to_maintenance s now c i")
      case (Inl e)
      with Inr Some assms show ?thesis by (simp add: send_to_maintenance_def)
    next
      case r: (Inr res)
      obtain x s1 where res: "res = (x, s1)" by (cases res)
      from session_ok_DAO_send_to_maintenance[OF assms r[unfolded res]]
      have s1: "session_ok s1" "next_id s1 = next_id s" by simp_all
      show ?thesis
      proof (cases x)
        case None
        with Inr Some r res s1 show ?thesis by (simp add: send_to_maintenance_def)
      next
        case d: (Some d)
        have "session_ok (snd (DeviceDAO_log_action s1 l i a old new u n))" for a old new u n
          using s1 lt by (intro session_ok_log_action) simp_all
        with Inr Some r res d show ?thesis
          by (simp add: send_to_maintenance_def Let_def case_prod_beta)
      qed
    qed
  qed
qed

lemma session_ok_reserve_device:
  assumes "session_ok s"
  shows "session_ok (fst (snd (reserve_device s q now c l p i rq)))"
proof (cases "DeviceDAO_get_device_by_id s i")
  case (Inl e)
  with assms show ?thesis by (simp add: reserve_device_def)
next
  case (Inr found)
  show ?thesis
  proof (cases found)
    case None
    with Inr assms show ?thesis by (simp add: reserve_device_def)
  next
    case (Some old_device)
    then have q: "query_id s i = Inr (Some old_device)"
      using Inr by (simp add: DeviceDAO_get_device_by_id_def)
    have lt: "i < next_id s" by (rule session_ok_query_lt[OF assms q])
    show ?thesis
    proof (cases "DeviceDAO_reserve_device s now c i")
      case (Inl e)
      with Inr Some assms show ?thesis by (simp add: reserve_device_def)
    next
      case r: (Inr res)
      obtain x s1 where res: "res = (x, s1)" by (cases res)
      from session_ok_DAO_reserve_device[OF assms r[unfolded res]]
      have s1: "session_ok s1" "next_id s1 = next_id s" by simp_all
      show ?thesis
      proof (cases x)
        case None
        with Inr Some r res s1 show ?thesis by (simp add: reserve_device_def)
      next
        case d: (Some d)
        have "session_ok (snd (DeviceDAO_log_action s1 l i a old new u n))" for a old new u n
          using s1 lt by (intro session_ok_log_action) simp_all
        with Inr Some r res d show ?thesis
          by (simp add: reserve_device_def Let_def case_prod_beta)
      qed
    qed
  qed
qed

lemma session_ok_step: "session_ok (fst st) \<Longrightarrow> session_ok (fst (step st c))"
proof -
  assume ok: "session_ok (fst st)"
  obtain s q where st: "st = (s, q)" by (cases st)
  from ok st have s: "session_ok s" by simp
  show ?thesis unfolding st
    using s
    by (cases c)
      (simp_all add: session_ok_create_device session_ok_update_device session_ok_delete_device
        session_ok_update_device_status session_ok_deploy_device session_ok_recall_device
        session_ok_send_to_maintenance session_ok_reserve_device)
qed

lemma session_ok_foldl: "session_ok (fst st) \<Longrightarrow> session_ok (fst (foldl step st cs))"
  by (induction cs arbitrary: st) (simp_all add: session_ok_step)

lemma session_ok_run: "session_ok (fst (run calls))"
  unfolding run_def by (rule session_ok_foldl) (simp add: initial_def session_ok_def)

section \<open>Create\<close>

lemma filter_distinct_key:
  "distinct (map f xs) \<Longrightarrow> d \<in> set xs \<Longrightarrow> filter (\<lambda>x. f x = f d) xs = [d]"
proof (induction xs)
  case Nil
  then show ?case by simp
next
  case (Cons x xs)
  show ?case
  proof (cases "x = d")
    case True
    with Cons.prems have "\<forall>y\<in>set xs. f y \<noteq> f d" by (auto simp: image_iff)
    then have "filter (\<lambda>x. f x = f d) xs = []" by (simp add: filter_empty_conv)
    with True show ?thesis by simp
  next
    case False
    with Cons.prems have d: "d \<in> set xs" and "f x \<noteq> f d" by (auto simp: image_iff)
    with Cons show ?thesis by simp
  qed
qed

lemma create_device_existing_serial:
  assumes "distinct (map serial_number (devices s))" and "d \<in> set (devices s)"
    and "serial_number dev = serial_number d"
  shows "DeviceDAO_create_device s now c dev = Inr (False, dev, s)"
proof -
  have "filter (\<lambda>x. serial_number x = serial_number d) (devices s) = [d]"
    using assms(1,2) by (rule filter_distinct_key)
  then show ?thesis using assms(3)
    by (simp add: DeviceDAO_create_device_def query_serial_def one_or_none_def)
qed

lemma create_device_existing_serial_any:
  assumes "d \<in> set (devices s)" and "serial_number d = rq_serial_number rq"
  shows "snd (create_device s now c rq) = s \<and> (\<exists>e. fst (create_device s now c rq) = Inl e)"
proof -
  have "d \<in> set (filter (\<lambda>x. serial_number x = rq_serial_number rq) (devices s))"
    using assms by simp
  then have ne: "filter (\<lambda>x. serial_number x = rq_serial_number rq) (devices s) \<noteq> []"
    by (metis empty_iff list.set(1))
  then have "query_serial s (rq_serial_number rq) \<noteq> Inr None"
    by (simp add: query_serial_def one_or_none_None)
  then show ?thesis
    by (auto simp: create_device_def DeviceDAO_create_device_def Let_def
        split: sum.splits option.splits)
qed

text \<open>
  C1. In every state the service reaches, no two devices have the same serial number, and a
  create request whose serial number is that of a stored device fails:
  \<^verbatim>\<open>DeviceDAO.create_device\<close> returns \<open>False\<close>, the endpoint answers 400, and the store
  is unchanged. On any store at all, a create request with the serial number of a stored
  device raises and leaves the store unchanged.
\<close>

theorem create_device_unique_serial:
  "(let s = fst (run calls)
    in distinct (map serial_number (devices s)) \<and>
       (\<forall>d\<in>set (devices s).
          (serial_number dev = serial_number d \<longrightarrow>
             DeviceDAO_create_device s now c dev = Inr (False, dev, s)) \<and>
          (rq_serial_number rq = serial_number d \<longrightarrow>
             create_device s now c rq = (Inl (HTTPException 400), s)))) \<and>
   ((\<exists>d\<in>set (devices s0). serial_number d = rq_serial_number rq) \<longrightarrow>
      snd (create_device s0 now c rq) = s0 \<and> (\<exists>e. fst (create_device s0 now c rq) = Inl e))"
proof -
  let ?s = "fst (run calls)"
  have dist: "distinct (map serial_number (devices ?s))"
    using session_ok_run[of calls] by (simp add: session_ok_def)
  have a: "DeviceDAO_create_device ?s now c dev = Inr (False, dev, ?s)"
    if "d \<in> set (devices ?s)" "serial_number dev = serial_number d" for d
    using dist that by (rule create_device_existing_serial)
  have b: "create_device ?s now c rq = (Inl (HTTPException 400), ?s)"
    if "d \<in> set (devices ?s)" "rq_serial_number rq = serial_number d" for d
  proof -
    let ?dev = "\<lparr>dev_id = None, name = rq_name rq, dev_type = Some (rq_type rq),
                serial_number = rq_serial_number rq, description = rq_description rq,
                status = None, location = rq_location rq,
                specifications = rq_specifications rq, purchase_date = None,
                deploy_date = None, last_maintenance_date = None, created_at = None,
                updated_at = None\<rparr>"
    have "DeviceDAO_create_device ?s now c ?dev = Inr (False, ?dev, ?s)"
      using dist that(1) by (rule create_device_existing_serial) (simp add: that(2))
    then show ?thesis by (simp add: create_device_def)
  qed
  have c: "(\<exists>d\<in>set (devices s0). serial_number d = rq_serial_number rq) \<longrightarrow>
      snd (create_device s0 now c rq) = s0 \<and> (\<exists>e. fst (create_device s0 now c rq) = Inl e)"
    using create_device_existing_serial_any[of _ s0 rq now c] by blast
  from dist a b c show ?thesis unfolding Let_def by blast
qed

theorem create_device_unique_serial_witness:
  "fst (run [CreateDevice 10 True example_request]) = example_session \<and>
   example_device \<in> set (devices example_session) \<and>
   rq_serial_number example_request = serial_number example_device \<and>
   distinct (map serial_number (devices example_session)) \<and>
   create_device example_session 11 True example_request =
     (Inl (HTTPException 400), example_session) \<and>
   snd (create_device example_session 11 True example_request) = example_session"
proof -
  have r: "fst (run [CreateDevice 10 True example_request]) = example_session"
    by (rule example_session_run)
  have m: "example_device \<in> set (devices example_session)" by (simp add: example_session_def)
  have e: "rq_serial_number example_request = serial_number example_device"
    by (simp add: example_request_def example_device_def)
  note t = create_device_unique_serial [of "[CreateDevice 10 True example_request]"
      example_device 11 True example_request example_session, unfolded r Let_def]
  from t have d: "distinct (map serial_number (devices example_session))" by blast
  from t m e have a: "create_device example_session 11 True example_request =
     (Inl (HTTPException 400), example_session)" by blast
  from a have b: "snd (create_device example_session 11 True example_request) = example_session"
    by simp
  from r m e d a b show ?thesis by blast
qed

section \<open>Reserve\<close>

text \<open>
  C2. For a device that exists, \<^verbatim>\<open>DeviceDAO.reserve_device\<close> with a commit that goes
  through returns the device exactly when its status is \<open>in_stock\<close>; the stored row then
  differs from the old one in its status, now \<open>reserved\<close>, and its update time only, and
  no other row, no log row and no counter changes. A second reserve, on the state the first
  one left, returns \<open>None\<close> whatever its commit would do, and the endpoint answers 400
  without changing the store or publishing. From any other status the first call already
  fails that way. When the commit raises, the call returns \<open>None\<close> and the store is as
  it was.
\<close>

theorem reserve_device_only_from_in_stock:
  assumes "DeviceDAO_get_device_by_id s i = Inr (Some d)"
  shows
    "((\<exists>d' s'. DeviceDAO_reserve_device s now True i = Inr (Some d', s')) \<longleftrightarrow>
        status d = Some IN_STOCK) \<and>
     (status d = Some IN_STOCK \<longrightarrow>
        (let d' = d\<lparr>status := Some RESERVED, updated_at := Some now\<rparr>;
             s' = s\<lparr>devices := map (\<lambda>x. if dev_id x = Some i then d' else x) (devices s)\<rparr>
         in DeviceDAO_reserve_device s now True i = Inr (Some d', s') \<and>
            DeviceDAO_get_device_by_id s' i = Inr (Some d') \<and>
            DeviceDAO_reserve_device s' now2 ok2 i = Inr (None, s') \<and>
            reserve_device s' q now2 ok2 l2 p2 i rq = (Inl (HTTPException 400), s', q))) \<and>
     (status d \<noteq> Some IN_STOCK \<longrightarrow>
        DeviceDAO_reserve_device s now ok i = Inr (None, s) \<and>
        reserve_device s q now ok l p i rq = (Inl (HTTPException 400), s, q)) \<and>
     DeviceDAO_reserve_device s now False i = Inr (None, s)"
proof -
  have q: "query_id s i = Inr (Some d)" using assms by (simp add: DeviceDAO_get_device_by_id_def)
  have i: "dev_id d = Some i" by (rule query_id_dev_id[OF q])
  let ?d = "d\<lparr>status := Some RESERVED\<rparr>"
  have st: "store s now ?d = s\<lparr>devices := map (\<lambda>x. if dev_id x = Some i then on_update now ?d else x) (devices s)\<rparr>"
    using i by (simp add: store_def)
  have q': "query_id (store s now ?d) i = Inr (Some (on_update now ?d))"
    using q i by (simp add: query_id_store)
  have a: "status d = Some IN_STOCK \<Longrightarrow> DeviceDAO_reserve_device s now True i = Inr (Some (on_update now ?d), store s now ?d)"
    using q by (simp add: DeviceDAO_reserve_device_def Let_def)
  have b: "DeviceDAO_reserve_device (store s now ?d) now2 ok2 i = Inr (None, store s now ?d)"
    using q' by (simp add: DeviceDAO_reserve_device_def on_update_def)
  have c: "reserve_device (store s now ?d) q now2 ok2 l2 p2 i rq = (Inl (HTTPException 400), store s now ?d, q)"
    using q' b by (simp add: reserve_device_def DeviceDAO_get_device_by_id_def)
  have d: "\<And>ok. status d \<noteq> Some IN_STOCK \<Longrightarrow> DeviceDAO_reserve_device s now ok i = Inr (None, s)"
    using q by (simp add: DeviceDAO_reserve_device_def)
  have e: "status d \<noteq> Some IN_STOCK \<Longrightarrow> reserve_device s q now ok l p i rq = (Inl (HTTPException 400), s, q)"
    using q d by (simp add: reserve_device_def DeviceDAO_get_device_by_id_def)
  have f: "DeviceDAO_reserve_device s now False i = Inr (None, s)"
    using q by (simp add: DeviceDAO_reserve_device_def)
  have ou: "on_update now ?d = d\<lparr>status := Some RESERVED, updated_at := Some now\<rparr>"
    by (simp add: on_update_def)
  have g: "(\<exists>d' s'. DeviceDAO_reserve_device s now True i = Inr (Some d', s')) \<longleftrightarrow>
      status d = Some IN_STOCK"
  proof (cases "status d = Some IN_STOCK")
    case True
    with a show ?thesis by simp
  next
    case False
    with d[of True] show ?thesis by simp
  qed
  have rest: "(status d = Some IN_STOCK \<longrightarrow>
        (let d' = d\<lparr>status := Some RESERVED, updated_at := Some now\<rparr>;
             s' = s\<lparr>devices := map (\<lambda>x. if dev_id x = Some i then d' else x) (devices s)\<rparr>
         in DeviceDAO_reserve_device s now True i = Inr (Some d', s') \<and>
            DeviceDAO_get_device_by_id s' i = Inr (Some d') \<and>
            DeviceDAO_reserve_device s' now2 ok2 i = Inr (None, s') \<and>
            reserve_device s' q now2 ok2 l2 p2 i rq = (Inl (HTTPException 400), s', q))) \<and>
     (status d \<noteq> Some IN_STOCK \<longrightarrow>
        DeviceDAO_reserve_device s now ok i = Inr (None, s) \<and>
        reserve_device s q now ok l p i rq = (Inl (HTTPException 400), s, q)) \<and>
     DeviceDAO_reserve_device s now False i = Inr (None, s)"
    using a b c d e f q' unfolding st ou Let_def DeviceDAO_get_device_by_id_def by simp
  from g rest show ?thesis by blast
qed

theorem reserve_device_only_from_in_stock_witness:
  "DeviceDAO_get_device_by_id example_session 1 = Inr (Some example_device) \<and>
   status example_device = Some IN_STOCK \<and>
   DeviceDAO_reserve_device example_session 20 True 1 =
     Inr (Some (example_device\<lparr>status := Some RESERVED, updated_at := Some 20\<rparr>),
          \<lparr>devices = [example_device\<lparr>status := Some RESERVED, updated_at := Some 20\<rparr>],
           logs = [], next_id = 2\<rparr>) \<and>
   reserve_device
     \<lparr>devices = [example_device\<lparr>status := Some RESERVED, updated_at := Some 20\<rparr>],
      logs = [], next_id = 2\<rparr> [] 30 True True True 1 \<lparr>rs_notes = PyNone\<rparr> =
     (Inl (HTTPException 400),
      \<lparr>devices = [example_device\<lparr>status := Some RESERVED, updated_at := Some 20\<rparr>],
       logs = [], next_id = 2\<rparr>, [])"
proof -
  have h: "DeviceDAO_get_device_by_id example_session 1 = Inr (Some example_device)"
    by (rule example_get)
  have st: "status example_device = Some IN_STOCK" by (simp add: example_device_def)
  have i: "dev_id example_device = Some 1" by (simp add: example_device_def)
  show ?thesis
    using reserve_device_only_from_in_stock [OF h, of 20 30 True "[]" True True "\<lparr>rs_notes = PyNone\<rparr>"] h st i
    by (simp add: Let_def example_session_def)
qed

section \<open>Deploy\<close>

text \<open>
  C3. For a device that exists, \<^verbatim>\<open>DeviceDAO.deploy_device\<close> with a commit that goes
  through returns the device exactly when its status is \<open>in_stock\<close>, \<open>reserved\<close> or
  \<open>maintenance\<close>; the stored row then has status \<open>deployed\<close>, the requested location
  and the deploy date of the call, and nothing else changes but its update time. From any
  other status the call returns \<open>None\<close>, the store is unchanged and the endpoint answers
  400. When the commit raises, the call returns \<open>None\<close> and the store is as it was.
\<close>

theorem deploy_device_allowed_sources:
  assumes "DeviceDAO_get_device_by_id s i = Inr (Some d)"
  shows
    "((\<exists>d' s'. DeviceDAO_deploy_device s now True i loc = Inr (Some d', s')) \<longleftrightarrow>
        status d \<in> {Some IN_STOCK, Some RESERVED, Some MAINTENANCE}) \<and>
     (status d \<in> {Some IN_STOCK, Some RESERVED, Some MAINTENANCE} \<longrightarrow>
        (let d' = d\<lparr>status := Some DEPLOYED, location := PyStr loc, deploy_date := Some now,
                     updated_at := Some now\<rparr>;
             s' = s\<lparr>devices := map (\<lambda>x. if dev_id x = Some i then d' else x) (devices s)\<rparr>
         in DeviceDAO_deploy_device s now True i loc = Inr (Some d', s') \<and>
            DeviceDAO_get_device_by_id s' i = Inr (Some d'))) \<and>
     (status d \<notin> {Some IN_STOCK, Some RESERVED, Some MAINTENANCE} \<longrightarrow>
        DeviceDAO_deploy_device s now ok i loc = Inr (None, s) \<and>
        deploy_device s now ok l i \<lparr>dp_location = loc, dp_notes = n\<rparr> = (Inl (HTTPException 400), s)) \<and>
     DeviceDAO_deploy_device s now False i loc = Inr (None, s)"
proof -
  have q: "query_id s i = Inr (Some d)" using assms by (simp add: DeviceDAO_get_device_by_id_def)
  have i: "dev_id d = Some i" by (rule query_id_dev_id[OF q])
  let ?d = "d\<lparr>status := Some DEPLOYED, location := PyStr loc, deploy_date := Some now\<rparr>"
  let ?A = "status d \<in> {Some IN_STOCK, Some RESERVED, Some MAINTENANCE}"
  have st: "store s now ?d = s\<lparr>devices := map (\<lambda>x. if dev_id x = Some i then on_update now ?d else x) (devices s)\<rparr>"
    using i by (simp add: store_def)
  have q': "query_id (store s now ?d) i = Inr (Some (on_update now ?d))"
    using q i by (simp add: query_id_store)
  have a: "?A \<Longrightarrow> DeviceDAO_deploy_device s now True i loc = Inr (Some (on_update now ?d), store s now ?d)"
    using q by (auto simp: DeviceDAO_deploy_device_def Let_def)
  have d: "\<And>ok. \<not> ?A \<Longrightarrow> DeviceDAO_deploy_device s now ok i loc = Inr (None, s)"
    using q by (simp add: DeviceDAO_deploy_device_def)
  have e: "\<not> ?A \<Longrightarrow> deploy_device s now ok l i \<lparr>dp_location = loc, dp_notes = n\<rparr> = (Inl (HTTPException 400), s)"
    using q d by (simp add: deploy_device_def DeviceDAO_get_device_by_id_def)
  have f: "DeviceDAO_deploy_device s now False i loc = Inr (None, s)"
    using q by (simp add: DeviceDAO_deploy_device_def Let_def)
  have ou: "on_update now ?d = d\<lparr>status := Some DEPLOYED, location := PyStr loc, deploy_date := Some now,
                     updated_at := Some now\<rparr>"
    by (simp add: on_update_def)
  have g: "(\<exists>d' s'. DeviceDAO_deploy_device s now True i loc = Inr (Some d', s')) \<longleftrightarrow> ?A"
  proof (cases ?A)
    case True
    with a show ?thesis by simp
  next
    case False
    with d[of True] show ?thesis by simp
  qed
  have h: "?A \<longrightarrow>
        (let d' = d\<lparr>status := Some DEPLOYED, location := PyStr loc, deploy_date := Some now,
                     updated_at := Some now\<rparr>;
             s' = s\<lparr>devices := map (\<lambda>x. if dev_id x = Some i then d' else x) (devices s)\<rparr>
         in DeviceDAO_deploy_device s now True i loc = Inr (Some d', s') \<and>
            DeviceDAO_get_device_by_id s' i = Inr (Some d'))"
    using a q' unfolding st ou Let_def DeviceDAO_get_device_by_id_def by simp
  from g h d[of ok] e f show ?thesis by blast
qed

theorem deploy_device_allowed_sources_witness:
  "DeviceDAO_get_device_by_id example_session 1 = Inr (Some example_device) \<and>
   status example_device \<in> {Some IN_STOCK, Some RESERVED, Some MAINTENANCE} \<and>
   DeviceDAO_deploy_device example_session 20 True 1 ''Warehouse-A'' =
     Inr (Some (example_device\<lparr>status := Some DEPLOYED, location := PyStr ''Warehouse-A'',
                 deploy_date := Some 20, updated_at := Some 20\<rparr>),
          \<lparr>devices = [example_device\<lparr>status := Some DEPLOYED, location := PyStr ''Warehouse-A'',
                 deploy_date := Some 20, updated_at := Some 20\<rparr>],
           logs = [], next_id = 2\<rparr>)"
proof -
  have h: "DeviceDAO_get_device_by_id example_session 1 = Inr (Some example_device)"
    by (rule example_get)
  have st: "status example_device = Some IN_STOCK" by (simp add: example_device_def)
  have i: "dev_id example_device = Some 1" by (simp add: example_device_def)
  show ?thesis
    using deploy_device_allowed_sources [OF h, of 20 "''Warehouse-A''"] h st i
    by (simp add: Let_def example_session_def)
qed


section \<open>Maintenance and retirement\<close>

text \<open>
  C5. For a device that exists, whatever its status, \<^verbatim>\<open>DeviceDAO.send_to_maintenance\<close>
  with a commit that goes through returns the device with status \<open>maintenance\<close> and the
  maintenance date of the call, and \<^verbatim>\<open>DeviceDAO.delete_device\<close> returns \<open>True\<close> and
  sets the status to \<open>retired\<close>: the table keeps its rows, and the device is still read
  by its identifier, with status \<open>retired\<close>. When the commit raises, either call fails
  and the store is as it was.
\<close>

theorem maintenance_and_retire_unrestricted:
  assumes "DeviceDAO_get_device_by_id s i = Inr (Some d)"
  shows
    "(let d' = d\<lparr>status := Some MAINTENANCE, last_maintenance_date := Some now,
                 updated_at := Some now\<rparr>;
          s' = s\<lparr>devices := map (\<lambda>x. if dev_id x = Some i then d' else x) (devices s)\<rparr>
      in DeviceDAO_send_to_maintenance s now True i = Inr (Some d', s') \<and>
         DeviceDAO_get_device_by_id s' i = Inr (Some d') \<and>
         fst (send_to_maintenance s now True l i rq) =
           Inr \<lparr>success = True, device = Some (to_response d')\<rparr>) \<and>
     (let d' = d\<lparr>status := Some RETIRED, updated_at := Some now\<rparr>;
          s' = s\<lparr>devices := map (\<lambda>x. if dev_id x = Some i then d' else x) (devices s)\<rparr>
      in DeviceDAO_delete_device s now True i = Inr (True, s') \<and>
         delete_device s now True i = (Inr \<lparr>success = True, device = None\<rparr>, s') \<and>
         length (devices s') = length (devices s) \<and>
         DeviceDAO_get_device_by_id s' i = Inr (Some d') \<and>
         get_device_by_id s' i = Inr (to_response d') \<and>
         r_status (to_response d') = Some ''retired'') \<and>
     DeviceDAO_send_to_maintenance s now False i = Inr (None, s) \<and>
     DeviceDAO_delete_device s now False i = Inr (False, s)"
proof -
  have q: "query_id s i = Inr (Some d)" using assms by (simp add: DeviceDAO_get_device_by_id_def)
  have i: "dev_id d = Some i" by (rule query_id_dev_id[OF q])
  let ?m = "d\<lparr>status := Some MAINTENANCE, last_maintenance_date := Some now\<rparr>"
  let ?r = "d\<lparr>status := Some RETIRED\<rparr>"
  have stm: "store s now ?m = s\<lparr>devices := map (\<lambda>x. if dev_id x = Some i then on_update now ?m else x) (devices s)\<rparr>"
    using i by (simp add: store_def)
  have str: "store s now ?r = s\<lparr>devices := map (\<lambda>x. if dev_id x = Some i then on_update now ?r else x) (devices s)\<rparr>"
    using i by (simp add: store_def)
  have qm: "query_id (store s now ?m) i = Inr (Some (on_update now ?m))"
    using q i by (simp add: query_id_store)
  have qr: "query_id (store s now ?r) i = Inr (Some (on_update now ?r))"
    using q i by (simp add: query_id_store)
  have m1: "DeviceDAO_send_to_maintenance s now True i = Inr (Some (on_update now ?m), store s now ?m)"
    using q by (simp add: DeviceDAO_send_to_maintenance_def Let_def)
  have m2: "fst (send_to_maintenance s now True l i rq) = Inr \<lparr>success = True, device = Some (to_response (on_update now ?m))\<rparr>"
    using q m1 by (simp add: send_to_maintenance_def DeviceDAO_get_device_by_id_def Let_def split: prod.splits)
  have m3: "DeviceDAO_send_to_maintenance s now False i = Inr (None, s)"
    using q by (simp add: DeviceDAO_send_to_maintenance_def Let_def)
  have r1: "DeviceDAO_delete_device s now True i = Inr (True, store s now ?r)"
    using q by (simp add: DeviceDAO_delete_device_def Let_def)
  have r2: "delete_device s now True i = (Inr \<lparr>success = True, device = None\<rparr>, store s now ?r)"
    using r1 by (simp add: delete_device_def)
  have r3: "DeviceDAO_delete_device s now False i = Inr (False, s)"
    using q by (simp add: DeviceDAO_delete_device_def Let_def)
  have r4: "get_device_by_id (store s now ?r) i = Inr (to_response (on_update now ?r))"
    using qr by (simp add: get_device_by_id_def DeviceDAO_get_device_by_id_def)
  have r5: "r_status (to_response (on_update now ?r)) = Some ''retired''"
    by (simp add: to_response_def on_update_def)
  have r6: "length (devices (store s now ?r)) = length (devices s)"
    by (simp add: store_def)
  have oum: "on_update now ?m = d\<lparr>status := Some MAINTENANCE, last_maintenance_date := Some now,
                 updated_at := Some now\<rparr>"
    by (simp add: on_update_def)
  have our: "on_update now ?r = d\<lparr>status := Some RETIRED, updated_at := Some now\<rparr>"
    by (simp add: on_update_def)
  have A: "(let d' = d\<lparr>status := Some MAINTENANCE, last_maintenance_date := Some now,
                 updated_at := Some now\<rparr>;
          s' = s\<lparr>devices := map (\<lambda>x. if dev_id x = Some i then d' else x) (devices s)\<rparr>
      in DeviceDAO_send_to_maintenance s now True i = Inr (Some d', s') \<and>
         DeviceDAO_get_device_by_id s' i = Inr (Some d') \<and>
         fst (send_to_maintenance s now True l i rq) =
           Inr \<lparr>success = True, device = Some (to_response d')\<rparr>)"
    using m1 m2 qm unfolding stm oum Let_def DeviceDAO_get_device_by_id_def by simp
  have B: "(let d' = d\<lparr>status := Some RETIRED, updated_at := Some now\<rparr>;
          s' = s\<lparr>devices := map (\<lambda>x. if dev_id x = Some i then d' else x) (devices s)\<rparr>
      in DeviceDAO_delete_device s now True i = Inr (True, s') \<and>
         delete_device s now True i = (Inr \<lparr>success = True, device = None\<rparr>, s') \<and>
         length (devices s') = length (devices s) \<and>
         DeviceDAO_get_device_by_id s' i = Inr (Some d') \<and>
         get_device_by_id s' i = Inr (to_response d') \<and>
         r_status (to_response d') = Some ''retired'')"
    using r1 r2 r4 r5 r6 qr unfolding str our Let_def DeviceDAO_get_device_by_id_def by simp
  from A B m3 r3 show ?thesis by blast
qed

theorem maintenance_and_retire_unrestricted_witness:
  "DeviceDAO_get_device_by_id retired_session 1 = Inr (Some retired_device) \<and>
   status retired_device = Some RETIRED \<and>
   DeviceDAO_send_to_maintenance retired_session 20 True 1 =
     Inr (Some (retired_device\<lparr>status := Some MAINTENANCE, last_maintenance_date := Some 20,
                 updated_at := Some 20\<rparr>),
          \<lparr>devices = [retired_device\<lparr>status := Some MAINTENANCE,
                 last_maintenance_date := Some 20, updated_at := Some 20\<rparr>],
           logs = [], next_id = 2\<rparr>) \<and>
   DeviceDAO_delete_device retired_session 20 True 1 =
     Inr (True, \<lparr>devices = [retired_device\<lparr>status := Some RETIRED, updated_at := Some 20\<rparr>],
                logs = [], next_id = 2\<rparr>) \<and>
   get_device_by_id
     \<lparr>devices = [retired_device\<lparr>status := Some RETIRED, updated_at := Some 20\<rparr>],
      logs = [], next_id = 2\<rparr> 1 =
     Inr (to_response (retired_device\<lparr>status := Some RETIRED, updated_at := Some 20\<rparr>))"
proof -
  have h: "DeviceDAO_get_device_by_id retired_session 1 = Inr (Some retired_device)"
    by (simp add: DeviceDAO_get_device_by_id_def query_id_def one_or_none_def
        retired_session_def retired_device_def example_device_def)
  have st: "status retired_device = Some RETIRED" by (simp add: retired_device_def)
  have i: "dev_id retired_device = Some 1" by (simp add: retired_device_def example_device_def)
  show ?thesis
    using maintenance_and_retire_unrestricted [OF h, of 20] h st i
    by (simp add: Let_def retired_session_def)
qed

section \<open>Telemetry and events\<close>

text \<open>
  C7. \<^verbatim>\<open>receive_telemetry\<close> answers 404 when no device has the identifier of the
  request, and 400 when the device exists with a status other than \<open>deployed\<close>; in both
  cases nothing is published. For a deployed device it publishes one telemetry message and
  succeeds, or answers 500 when the publish fails. Whenever the list of published messages
  changes, the device exists and is deployed.
\<close>

theorem receive_telemetry_gate:
  "(DeviceDAO_get_device_by_id s (tm_device_id rq) = Inr None \<longrightarrow>
      receive_telemetry s q p rq = (Inl (HTTPException 404), q)) \<and>
   (\<forall>d. DeviceDAO_get_device_by_id s (tm_device_id rq) = Inr (Some d) \<and> status d \<noteq> Some DEPLOYED \<longrightarrow>
      receive_telemetry s q p rq = (Inl (HTTPException 400), q)) \<and>
   (\<forall>d. DeviceDAO_get_device_by_id s (tm_device_id rq) = Inr (Some d) \<and> status d = Some DEPLOYED \<longrightarrow>
      receive_telemetry s q False rq = (Inl (HTTPException 500), q) \<and>
      (\<exists>data. receive_telemetry s q True rq =
         (Inr \<lparr>success = True, device = None\<rparr>, q @ [Telemetry (dev_id d) (name d) data]))) \<and>
   (snd (receive_telemetry s q p rq) \<noteq> q \<longrightarrow>
      (\<exists>d. DeviceDAO_get_device_by_id s (tm_device_id rq) = Inr (Some d) \<and> status d = Some DEPLOYED))"
  by (auto simp: receive_telemetry_def publish_telemetry_def Let_def
      split: sum.splits option.splits if_splits)


theorem receive_telemetry_gate_witness:
  "DeviceDAO_get_device_by_id example_session 2 = Inr None \<and>
   receive_telemetry example_session [] True \<lparr>tm_device_id = 2, tm_model_dump = []\<rparr> =
     (Inl (HTTPException 404), []) \<and>
   DeviceDAO_get_device_by_id example_session 1 = Inr (Some example_device) \<and>
   status example_device \<noteq> Some DEPLOYED \<and>
   receive_telemetry example_session [] True \<lparr>tm_device_id = 1, tm_model_dump = []\<rparr> =
     (Inl (HTTPException 400), []) \<and>
   DeviceDAO_get_device_by_id deployed_session 1 = Inr (Some deployed_device) \<and>
   status deployed_device = Some DEPLOYED \<and>
   snd (receive_telemetry deployed_session [] True
          \<lparr>tm_device_id = 1, tm_model_dump = [(''device_id'', PyStr ''1''), (''temperature'', PyStr ''21.5'')]\<rparr>) =
     [Telemetry (Some 1) (PyStr ''probe'') (PyDict [(''temperature'', PyStr ''21.5'')])]"
proof -
  have a: "DeviceDAO_get_device_by_id example_session 2 = Inr None"
    by (simp add: DeviceDAO_get_device_by_id_def query_id_def one_or_none_def
        example_session_def example_device_def)
  have b: "status example_device \<noteq> Some DEPLOYED" by (simp add: example_device_def)
  have c: "DeviceDAO_get_device_by_id deployed_session 1 = Inr (Some deployed_device)"
    by (simp add: DeviceDAO_get_device_by_id_def query_id_def one_or_none_def
        deployed_session_def deployed_device_def example_device_def)
  have d: "status deployed_device = Some DEPLOYED" by (simp add: deployed_device_def)
  have e: "snd (receive_telemetry deployed_session [] True
          \<lparr>tm_device_id = 1, tm_model_dump = [(''device_id'', PyStr ''1''), (''temperature'', PyStr ''21.5'')]\<rparr>) =
     [Telemetry (Some 1) (PyStr ''probe'') (PyDict [(''temperature'', PyStr ''21.5'')])]"
    using c by (simp add: receive_telemetry_def publish_telemetry_def Let_def deployed_device_def
        example_device_def)
  have t1: "receive_telemetry example_session [] True \<lparr>tm_device_id = 2, tm_model_dump = []\<rparr> =
     (Inl (HTTPException 404), [])"
    using receive_telemetry_gate [of example_session "\<lparr>tm_device_id = 2, tm_model_dump = []\<rparr>" "[]" True] a
    by simp
  have t2: "receive_telemetry example_session [] True \<lparr>tm_device_id = 1, tm_model_dump = []\<rparr> =
     (Inl (HTTPException 400), [])"
    using receive_telemetry_gate [of example_session "\<lparr>tm_device_id = 1, tm_model_dump = []\<rparr>" "[]" True]
      example_get b
    by simp
  from a b c d e t1 t2 example_get show ?thesis by simp
qed


text \<open>
  C10. \<^verbatim>\<open>receive_event\<close> has no access to the store: for every request it attempts the
  publish, succeeds with the message appended when the publish succeeds and answers 500
  when it fails, never 404; as a step of the service it leaves the store as it is, and what
  it publishes is the same on every store.
\<close>

theorem receive_event_no_lookup:
  "receive_event q True rq =
     (Inr \<lparr>success = True, device = None\<rparr>,
      q @ [DeviceEvent (Some (ev_device_id rq)) (PyStr (''Device-'' @ str_nat (ev_device_id rq)))
             (ev_event_type rq)
             (if py_truthy (ev_details rq) then ev_details rq else PyDict [])]) \<and>
   receive_event q False rq = (Inl (HTTPException 500), q) \<and>
   fst (receive_event q p rq) \<noteq> Inl (HTTPException 404) \<and>
   fst (step (s, q) (ReceiveEvent p rq)) = s \<and>
   snd (step (s, q) (ReceiveEvent p rq)) = snd (step (s', q) (ReceiveEvent p rq))"
  by (cases p) (simp_all add: receive_event_def publish_device_event_def Let_def)

lemma str_nat_99: "str_nat 99 = ''99''"
  by code_simp

lemma receive_event_unknown_device:
  "step (example_session, [])
     (ReceiveEvent True \<lparr>ev_device_id = 99, ev_event_type = ''alert'', ev_details = PyNone\<rparr>) =
   (example_session, [DeviceEvent (Some 99) (PyStr ''Device-99'') ''alert'' (PyDict [])])"
  by (simp add: receive_event_def publish_device_event_def str_nat_99)

section \<open>Updating the descriptive fields\<close>

lemma map_of_rev_Cons:
  "map_of (rev ((f, v) # kw)) k =
     (case map_of (rev kw) k of Some x \<Rightarrow> Some x | None \<Rightarrow> if f = k then Some v else None)"
  by (simp add: map_add_def split: option.splits)

lemma update_fields_name:
  "name (update_fields d kw) = (case map_of (rev kw) ''name'' of None \<Rightarrow> name d | Some v \<Rightarrow> v)"
proof (induction kw arbitrary: d)
  case Nil
  show ?case by simp
next
  case (Cons p kw)
  obtain f v where p: "p = (f, v)" by (cases p)
  show ?case unfolding p map_of_rev_Cons
    by (simp add: Cons.IH setattr_device_def allowed_fields_def split: option.splits)
qed

lemma update_fields_description:
  "description (update_fields d kw) =
     (case map_of (rev kw) ''description'' of None \<Rightarrow> description d | Some v \<Rightarrow> v)"
proof (induction kw arbitrary: d)
  case Nil
  show ?case by simp
next
  case (Cons p kw)
  obtain f v where p: "p = (f, v)" by (cases p)
  show ?case unfolding p map_of_rev_Cons
    by (simp add: Cons.IH setattr_device_def allowed_fields_def split: option.splits)
qed

lemma update_fields_location:
  "location (update_fields d kw) =
     (case map_of (rev kw) ''location'' of None \<Rightarrow> location d | Some v \<Rightarrow> v)"
proof (induction kw arbitrary: d)
  case Nil
  show ?case by simp
next
  case (Cons p kw)
  obtain f v where p: "p = (f, v)" by (cases p)
  show ?case unfolding p map_of_rev_Cons
    by (simp add: Cons.IH setattr_device_def allowed_fields_def split: option.splits)
qed

lemma update_fields_specifications:
  "specifications (update_fields d kw) =
     (case map_of (rev kw) ''specifications'' of None \<Rightarrow> specifications d | Some v \<Rightarrow> v)"
proof (induction kw arbitrary: d)
  case Nil
  show ?case by simp
next
  case (Cons p kw)
  obtain f v where p: "p = (f, v)" by (cases p)
  show ?case unfolding p map_of_rev_Cons
    by (simp add: Cons.IH setattr_device_def allowed_fields_def split: option.splits)
qed

lemma update_fields_controller:
  "update_fields d [(''name'', a), (''description'', b), (''location'', c), (''specifications'', e)] =
     d\<lparr>name := a, description := b, location := c, specifications := e\<rparr>"
  by (simp add: setattr_device_def allowed_fields_def)

text \<open>
  C9. \<^verbatim>\<open>DeviceDAO.update_device\<close> on a device that does not exist returns \<open>None\<close>,
  the endpoint answers 404, and the store is unchanged. On a device that exists, with a
  commit that goes through, the stored row keeps its identifier, type, serial number,
  status, purchase, deploy and maintenance dates and creation time; each of \<open>name\<close>,
  \<open>description\<close>, \<open>location\<close> and \<open>specifications\<close> takes the value the keyword
  arguments give it and keeps its old value when they do not name it; any other keyword is
  ignored; no other row and no log row changes. The endpoint passes all four fields of the
  request, so each of them takes the request's value, \<open>None\<close> included.
\<close>

theorem update_device_frame:
  "(DeviceDAO_get_device_by_id s i = Inr None \<longrightarrow>
      DeviceDAO_update_device s now ok i kwargs = Inr (None, s) \<and>
      update_device s now ok i rq = (Inl (HTTPException 404), s)) \<and>
   (\<forall>d. DeviceDAO_get_device_by_id s i = Inr (Some d) \<longrightarrow>
      (\<exists>d'. DeviceDAO_update_device s now True i kwargs =
              Inr (Some d',
                   s\<lparr>devices := map (\<lambda>x. if dev_id x = Some i then d' else x) (devices s)\<rparr>) \<and>
            dev_id d' = dev_id d \<and> dev_type d' = dev_type d \<and>
            serial_number d' = serial_number d \<and> status d' = status d \<and>
            purchase_date d' = purchase_date d \<and> deploy_date d' = deploy_date d \<and>
            last_maintenance_date d' = last_maintenance_date d \<and>
            created_at d' = created_at d \<and> updated_at d' = Some now \<and>
            name d' = (case map_of (rev kwargs) ''name'' of None \<Rightarrow> name d | Some v \<Rightarrow> v) \<and>
            description d' =
              (case map_of (rev kwargs) ''description'' of None \<Rightarrow> description d | Some v \<Rightarrow> v) \<and>
            location d' =
              (case map_of (rev kwargs) ''location'' of None \<Rightarrow> location d | Some v \<Rightarrow> v) \<and>
            specifications d' =
              (case map_of (rev kwargs) ''specifications'' of
                 None \<Rightarrow> specifications d | Some v \<Rightarrow> v)) \<and>
      DeviceDAO_update_device s now False i kwargs = Inr (None, s) \<and>
      (let d'' = d\<lparr>name := up_name rq, description := up_description rq,
                     location := up_location rq, specifications := up_specifications rq,
                     updated_at := Some now\<rparr>
       in update_device s now True i rq =
            (Inr (to_response d''),
             s\<lparr>devices := map (\<lambda>x. if dev_id x = Some i then d'' else x) (devices s)\<rparr>)))"
proof -
  have A: "DeviceDAO_get_device_by_id s i = Inr None \<longrightarrow>
      DeviceDAO_update_device s now ok i kwargs = Inr (None, s) \<and>
      update_device s now ok i rq = (Inl (HTTPException 404), s)"
    by (simp add: DeviceDAO_get_device_by_id_def DeviceDAO_update_device_def update_device_def)
  have B: "(\<exists>d'. DeviceDAO_update_device s now True i kwargs =
              Inr (Some d',
                   s\<lparr>devices := map (\<lambda>x. if dev_id x = Some i then d' else x) (devices s)\<rparr>) \<and>
            dev_id d' = dev_id d \<and> dev_type d' = dev_type d \<and>
            serial_number d' = serial_number d \<and> status d' = status d \<and>
            purchase_date d' = purchase_date d \<and> deploy_date d' = deploy_date d \<and>
            last_maintenance_date d' = last_maintenance_date d \<and>
            created_at d' = created_at d \<and> updated_at d' = Some now \<and>
            name d' = (case map_of (rev kwargs) ''name'' of None \<Rightarrow> name d | Some v \<Rightarrow> v) \<and>
            description d' =
              (case map_of (rev kwargs) ''description'' of None \<Rightarrow> description d | Some v \<Rightarrow> v) \<and>
            location d' =
              (case map_of (rev kwargs) ''location'' of None \<Rightarrow> location d | Some v \<Rightarrow> v) \<and>
            specifications d' =
              (case map_of (rev kwargs) ''specifications'' of
                 None \<Rightarrow> specifications d | Some v \<Rightarrow> v)) \<and>
      DeviceDAO_update_device s now False i kwargs = Inr (None, s) \<and>
      (let d'' = d\<lparr>name := up_name rq, description := up_description rq,
                     location := up_location rq, specifications := up_specifications rq,
                     updated_at := Some now\<rparr>
       in update_device s now True i rq =
            (Inr (to_response d''),
             s\<lparr>devices := map (\<lambda>x. if dev_id x = Some i then d'' else x) (devices s)\<rparr>))"
    if g: "DeviceDAO_get_device_by_id s i = Inr (Some d)" for d
  proof -
    have q: "query_id s i = Inr (Some d)" using g by (simp add: DeviceDAO_get_device_by_id_def)
    have i: "dev_id d = Some i" by (rule query_id_dev_id[OF q])
    let ?u = "update_fields d kwargs"
    have iu: "dev_id ?u = Some i" using i update_fields_frame[of d kwargs] by simp
    have st: "store s now ?u =
        s\<lparr>devices := map (\<lambda>x. if dev_id x = Some i then on_update now ?u else x) (devices s)\<rparr>"
      using iu by (simp add: store_def)
    have r: "DeviceDAO_update_device s now True i kwargs = Inr (Some (on_update now ?u), store s now ?u)"
      using q by (simp add: DeviceDAO_update_device_def Let_def)
    have fr: "dev_id (on_update now ?u) = dev_id d \<and> dev_type (on_update now ?u) = dev_type d \<and>
            serial_number (on_update now ?u) = serial_number d \<and> status (on_update now ?u) = status d \<and>
            purchase_date (on_update now ?u) = purchase_date d \<and> deploy_date (on_update now ?u) = deploy_date d \<and>
            last_maintenance_date (on_update now ?u) = last_maintenance_date d \<and>
            created_at (on_update now ?u) = created_at d \<and> updated_at (on_update now ?u) = Some now"
      using update_fields_frame[of d kwargs] by (simp add: on_update_def)
    have nm: "name (on_update now ?u) = (case map_of (rev kwargs) ''name'' of None \<Rightarrow> name d | Some v \<Rightarrow> v)"
      using update_fields_name[of d kwargs] by (simp add: on_update_def)
    have ds: "description (on_update now ?u) =
              (case map_of (rev kwargs) ''description'' of None \<Rightarrow> description d | Some v \<Rightarrow> v)"
      using update_fields_description[of d kwargs] by (simp add: on_update_def)
    have lc: "location (on_update now ?u) =
              (case map_of (rev kwargs) ''location'' of None \<Rightarrow> location d | Some v \<Rightarrow> v)"
      using update_fields_location[of d kwargs] by (simp add: on_update_def)
    have sp: "specifications (on_update now ?u) =
              (case map_of (rev kwargs) ''specifications'' of
                 None \<Rightarrow> specifications d | Some v \<Rightarrow> v)"
      using update_fields_specifications[of d kwargs] by (simp add: on_update_def)
    have B1: "\<exists>d'. DeviceDAO_update_device s now True i kwargs =
              Inr (Some d',
                   s\<lparr>devices := map (\<lambda>x. if dev_id x = Some i then d' else x) (devices s)\<rparr>) \<and>
            dev_id d' = dev_id d \<and> dev_type d' = dev_type d \<and>
            serial_number d' = serial_number d \<and> status d' = status d \<and>
            purchase_date d' = purchase_date d \<and> deploy_date d' = deploy_date d \<and>
            last_maintenance_date d' = last_maintenance_date d \<and>
            created_at d' = created_at d \<and> updated_at d' = Some now \<and>
            name d' = (case map_of (rev kwargs) ''name'' of None \<Rightarrow> name d | Some v \<Rightarrow> v) \<and>
            description d' =
              (case map_of (rev kwargs) ''description'' of None \<Rightarrow> description d | Some v \<Rightarrow> v) \<and>
            location d' =
              (case map_of (rev kwargs) ''location'' of None \<Rightarrow> location d | Some v \<Rightarrow> v) \<and>
            specifications d' =
              (case map_of (rev kwargs) ''specifications'' of
                 None \<Rightarrow> specifications d | Some v \<Rightarrow> v)"
      apply (rule exI[of _ "on_update now ?u"])
      using r fr nm ds lc sp unfolding st by blast
    have B2: "DeviceDAO_update_device s now False i kwargs = Inr (None, s)"
      using q by (simp add: DeviceDAO_update_device_def Let_def)
    let ?kw = "[(''name'', up_name rq), (''description'', up_description rq),
              (''location'', up_location rq), (''specifications'', up_specifications rq)]"
    let ?c = "d\<lparr>name := up_name rq, description := up_description rq,
                     location := up_location rq, specifications := up_specifications rq\<rparr>"
    have ic: "dev_id ?c = Some i" using i by simp
    have stc: "store s now ?c =
        s\<lparr>devices := map (\<lambda>x. if dev_id x = Some i then on_update now ?c else x) (devices s)\<rparr>"
      using ic by (simp add: store_def)
    have rc: "DeviceDAO_update_device s now True i ?kw = Inr (Some (on_update now ?c), store s now ?c)"
      using q by (simp add: DeviceDAO_update_device_def Let_def update_fields_controller del: update_fields.simps)
    have ouc: "on_update now ?c = d\<lparr>name := up_name rq, description := up_description rq,
                     location := up_location rq, specifications := up_specifications rq,
                     updated_at := Some now\<rparr>"
      by (simp add: on_update_def)
    have B3: "(let d'' = d\<lparr>name := up_name rq, description := up_description rq,
                     location := up_location rq, specifications := up_specifications rq,
                     updated_at := Some now\<rparr>
       in update_device s now True i rq =
            (Inr (to_response d''),
             s\<lparr>devices := map (\<lambda>x. if dev_id x = Some i then d'' else x) (devices s)\<rparr>))"
      using rc unfolding stc ouc Let_def by (simp add: update_device_def del: update_fields.simps)
    from B1 B2 B3 show ?thesis by blast
  qed
  from A B show ?thesis by blast
qed

theorem update_device_frame_witness:
  "DeviceDAO_get_device_by_id example_session 2 = Inr None \<and>
   DeviceDAO_update_device example_session 20 True 2
     [(''name'', PyStr ''probe-2''), (''status'', PyStr ''retired'')] = Inr (None, example_session) \<and>
   DeviceDAO_get_device_by_id example_session 1 = Inr (Some example_device) \<and>
   (\<exists>d'. DeviceDAO_update_device example_session 20 True 1
           [(''name'', PyStr ''probe-2''), (''status'', PyStr ''retired'')] =
           Inr (Some d', \<lparr>devices = [d'], logs = [], next_id = 2\<rparr>) \<and>
         name d' = PyStr ''probe-2'' \<and> description d' = PyStr ''soil probe'' \<and>
         status d' = Some IN_STOCK \<and> serial_number d' = ''SN-1'' \<and> dev_id d' = Some 1) \<and>
   update_device example_session 20 True 1
     \<lparr>up_name = PyStr ''probe-2'', up_description = PyNone, up_location = PyNone,
      up_specifications = PyNone\<rparr> =
     (Inr (to_response (example_device\<lparr>name := PyStr ''probe-2'', description := PyNone,
             location := PyNone, specifications := PyNone, updated_at := Some 20\<rparr>)),
      \<lparr>devices = [example_device\<lparr>name := PyStr ''probe-2'', description := PyNone,
             location := PyNone, specifications := PyNone, updated_at := Some 20\<rparr>],
       logs = [], next_id = 2\<rparr>)"
proof -
  have h2: "DeviceDAO_get_device_by_id example_session 2 = Inr None"
    by (simp add: DeviceDAO_get_device_by_id_def query_id_def one_or_none_def
        example_session_def example_device_def)
  have h1: "DeviceDAO_get_device_by_id example_session 1 = Inr (Some example_device)"
    by (rule example_get)
  have i: "dev_id example_device = Some 1" by (simp add: example_device_def)
  have f: "name example_device = PyStr ''probe'' \<and> description example_device = PyStr ''soil probe'' \<and>
      status example_device = Some IN_STOCK \<and> serial_number example_device = ''SN-1''"
    by (simp add: example_device_def)
  note a = update_device_frame [of example_session 2 20 True
      "[(''name'', PyStr ''probe-2''), (''status'', PyStr ''retired'')]"
      "\<lparr>up_name = PyStr ''probe-2'', up_description = PyNone, up_location = PyNone,
        up_specifications = PyNone\<rparr>"]
  note b = update_device_frame [of example_session 1 20 True
      "[(''name'', PyStr ''probe-2''), (''status'', PyStr ''retired'')]"
      "\<lparr>up_name = PyStr ''probe-2'', up_description = PyNone, up_location = PyNone,
        up_specifications = PyNone\<rparr>"]
  have A: "DeviceDAO_update_device example_session 20 True 2
     [(''name'', PyStr ''probe-2''), (''status'', PyStr ''retired'')] = Inr (None, example_session)"
    using a h2 by simp
  have B: "\<exists>d'. DeviceDAO_update_device example_session 20 True 1
           [(''name'', PyStr ''probe-2''), (''status'', PyStr ''retired'')] =
           Inr (Some d', \<lparr>devices = [d'], logs = [], next_id = 2\<rparr>) \<and>
         name d' = PyStr ''probe-2'' \<and> description d' = PyStr ''soil probe'' \<and>
         status d' = Some IN_STOCK \<and> serial_number d' = ''SN-1'' \<and> dev_id d' = Some 1"
  proof -
    from b h1 obtain d' where
      r: "DeviceDAO_update_device example_session 20 True 1
            [(''name'', PyStr ''probe-2''), (''status'', PyStr ''retired'')] =
          Inr (Some d', example_session\<lparr>devices :=
                 map (\<lambda>x. if dev_id x = Some 1 then d' else x) (devices example_session)\<rparr>)"
      and fr: "dev_id d' = dev_id example_device" "serial_number d' = serial_number example_device"
        "status d' = status example_device"
      and nm: "name d' = (case map_of (rev [(''name'', PyStr ''probe-2''), (''status'', PyStr ''retired'')]) ''name''
                 of None \<Rightarrow> name example_device | Some v \<Rightarrow> v)"
      and ds: "description d' = (case map_of (rev [(''name'', PyStr ''probe-2''), (''status'', PyStr ''retired'')]) ''description''
                 of None \<Rightarrow> description example_device | Some v \<Rightarrow> v)"
      by blast
    have "DeviceDAO_update_device example_session 20 True 1
           [(''name'', PyStr ''probe-2''), (''status'', PyStr ''retired'')] =
           Inr (Some d', \<lparr>devices = [d'], logs = [], next_id = 2\<rparr>)"
      using r i by (simp add: example_session_def)
    moreover have "name d' = PyStr ''probe-2''" using nm by simp
    moreover have "description d' = PyStr ''soil probe''" using ds f by simp
    moreover have "status d' = Some IN_STOCK \<and> serial_number d' = ''SN-1'' \<and> dev_id d' = Some 1"
      using fr f i by simp
    ultimately show ?thesis by blast
  qed
  have C: "update_device example_session 20 True 1
     \<lparr>up_name = PyStr ''probe-2'', up_description = PyNone, up_location = PyNone,
      up_specifications = PyNone\<rparr> =
     (Inr (to_response (example_device\<lparr>name := PyStr ''probe-2'', description := PyNone,
             location := PyNone, specifications := PyNone, updated_at := Some 20\<rparr>)),
      \<lparr>devices = [example_device\<lparr>name := PyStr ''probe-2'', description := PyNone,
             location := PyNone, specifications := PyNone, updated_at := Some 20\<rparr>],
       logs = [], next_id = 2\<rparr>)"
    using b h1 i by (simp add: example_session_def Let_def)
  from h2 A h1 B C show ?thesis by blast
qed

section \<open>Listing by pages\<close>

lemma concat_pages: "concat (map (\<lambda>k. take p (drop (k * p) xs)) [0..<n]) = take (n * p) xs"
proof (induction n)
  case 0
  show ?case by simp
next
  case (Suc n)
  have "Suc n * p = n * p + p" by simp
  then have "take (Suc n * p) xs = take (n * p) xs @ take p (drop (n * p) xs)"
    by (simp only: take_add)
  with Suc show ?case by (simp del: mult_Suc)
qed

lemma ceil_pages_cover: "0 < p \<Longrightarrow> (N::nat) \<le> ((N + p - 1) div p) * p"
proof -
  assume p: "0 < p"
  have "N + p - 1 = ((N + p - 1) div p) * p + (N + p - 1) mod p" by simp
  moreover have "(N + p - 1) mod p < p" using p by simp
  ultimately show ?thesis using p by linarith
qed

lemma matching_filter:
  "matching st ty rows =
     filter (\<lambda>d. (st = None \<or> status d = st) \<and> (ty = None \<or> dev_type d = ty)) rows"
  by (cases st; cases ty) (auto simp: matching_def Let_def intro: filter_cong)

lemma page_offset: "1 \<le> P \<Longrightarrow> 1 \<le> k \<Longrightarrow> nat ((int k - 1) * P) = (k - 1) * nat P"
  by (cases k) (simp_all add: nat_mult_distrib)

text \<open>
  C8. With a page size \<open>P \<ge> 1\<close>, \<^verbatim>\<open>DeviceDAO.get_all_devices\<close> returns for every page
  \<open>k \<ge> 1\<close> the \<open>P\<close> rows at offset \<open>(k - 1) * P\<close> of the rows that match the filter,
  in table order, together with the number \<open>N\<close> of matching rows, also for a page past
  the end; the pages \<open>1\<close> to \<open>ceil(N / P)\<close>, one after the other, are exactly the
  matching rows. The matching rows are the rows of the table that pass each filter that is
  given.
\<close>

theorem get_all_devices_pagination:
  assumes "1 \<le> P"
  shows
    "(let rows = matching st ty (devices s); N = length rows
      in (\<forall>k. 1 \<le> k \<longrightarrow>
            DeviceDAO_get_all_devices s st ty k P =
              Inr (take (nat P) (drop (nat ((k - 1) * P)) rows), N)) \<and>
         concat (map (\<lambda>k. case DeviceDAO_get_all_devices s st ty (int k) P of
                             Inr (page, n) \<Rightarrow> page | Inl e \<Rightarrow> [])
                   [1..<Suc ((N + nat P - 1) div nat P)]) = rows \<and>
         rows = filter (\<lambda>d. (st = None \<or> status d = st) \<and> (ty = None \<or> dev_type d = ty))
                  (devices s))"
proof -
  let ?rows = "matching st ty (devices s)"
  let ?N = "length ?rows"
  let ?p = "nat P"
  let ?n = "(?N + ?p - 1) div ?p"
  have p: "0 < ?p" using assms by simp
  have page: "DeviceDAO_get_all_devices s st ty k P =
      Inr (take (nat P) (drop (nat ((k - 1) * P)) ?rows), ?N)" if "1 \<le> k" for k
  proof -
    have "0 \<le> (k - 1) * P" using that assms by simp
    then show ?thesis using assms by (simp add: DeviceDAO_get_all_devices_def Let_def)
  qed
  have "concat (map (\<lambda>k. case DeviceDAO_get_all_devices s st ty (int k) P of
                             Inr (page, n) \<Rightarrow> page | Inl e \<Rightarrow> [])
                   [1..<Suc ?n]) =
        concat (map (\<lambda>k. take ?p (drop ((k - 1) * ?p) ?rows)) [1..<Suc ?n])"
  proof -
    have "(case DeviceDAO_get_all_devices s st ty (int k) P of
             Inr (page, n) \<Rightarrow> page | Inl e \<Rightarrow> []) = take ?p (drop ((k - 1) * ?p) ?rows)"
      if "k \<in> set [1..<Suc ?n]" for k
    proof -
      have k: "1 \<le> k" using that by auto
      then have "1 \<le> int k" by simp
      from page[OF this] show ?thesis using page_offset[OF assms k] by simp
    qed
    then show ?thesis by (metis (no_types, lifting) map_cong)
  qed
  also have "\<dots> = concat (map (\<lambda>k. take ?p (drop (k * ?p) ?rows)) [0..<?n])"
  proof -
    have "map (\<lambda>k. take ?p (drop ((k - 1) * ?p) ?rows)) [1..<Suc ?n] =
          map (\<lambda>k. take ?p (drop ((k - 1) * ?p) ?rows)) (map Suc [0..<?n])"
      by (simp add: map_Suc_upt del: upt_Suc)
    also have "\<dots> = map (\<lambda>k. take ?p (drop (k * ?p) ?rows)) [0..<?n]"
      by (simp add: comp_def)
    finally show ?thesis by simp
  qed
  also have "\<dots> = take (?n * ?p) ?rows" by (rule concat_pages)
  also have "\<dots> = ?rows" using ceil_pages_cover[OF p, of ?N] by simp
  finally have all: "concat (map (\<lambda>k. case DeviceDAO_get_all_devices s st ty (int k) P of
                             Inr (page, n) \<Rightarrow> page | Inl e \<Rightarrow> [])
                   [1..<Suc ?n]) = ?rows" .
  from page all matching_filter[of st ty "devices s"] show ?thesis
    unfolding Let_def by blast
qed

theorem get_all_devices_pagination_witness:
  "(1::int) \<le> 2 \<and>
   DeviceDAO_get_all_devices three_session None None 1 2 =
     Inr ([example_device, second_device], 3) \<and>
   DeviceDAO_get_all_devices three_session None None 2 2 = Inr ([third_device], 3) \<and>
   DeviceDAO_get_all_devices three_session None None 3 2 = Inr ([], 3) \<and>
   concat (map (\<lambda>k. case DeviceDAO_get_all_devices three_session None None (int k) 2 of
                       Inr (page, n) \<Rightarrow> page | Inl e \<Rightarrow> [])
             [1..<Suc ((3 + nat 2 - 1) div nat 2)]) =
     [example_device, second_device, third_device]"
proof -
  have h: "(1::int) \<le> 2" by simp
  have m: "matching None None (devices three_session) = [example_device, second_device, third_device]"
    by (simp add: matching_def three_session_def)
  let ?rows = "[example_device, second_device, third_device]"
  note t = get_all_devices_pagination [OF h, of None None three_session]
  have pg: "\<forall>k. 1 \<le> k \<longrightarrow>
      DeviceDAO_get_all_devices three_session None None k 2 =
        Inr (take (nat 2) (drop (nat ((k - 1) * 2)) ?rows), length ?rows)"
    using t unfolding Let_def m by blast
  have cc: "concat (map (\<lambda>k. case DeviceDAO_get_all_devices three_session None None (int k) 2 of
                       Inr (page, n) \<Rightarrow> page | Inl e \<Rightarrow> [])
             [1..<Suc ((length ?rows + nat 2 - 1) div nat 2)]) = ?rows"
    using t unfolding Let_def m by blast
  have p1: "DeviceDAO_get_all_devices three_session None None 1 2 =
     Inr ([example_device, second_device], 3)"
    using pg[rule_format, of 1] by simp
  have p2: "DeviceDAO_get_all_devices three_session None None 2 2 = Inr ([third_device], 3)"
    using pg[rule_format, of 2] by simp
  have p3: "DeviceDAO_get_all_devices three_session None None 3 2 = Inr ([], 3)"
    using pg[rule_format, of 3] by simp
  have "length ?rows = 3" by simp
  with cc have c: "concat (map (\<lambda>k. case DeviceDAO_get_all_devices three_session None None (int k) 2 of
                       Inr (page, n) \<Rightarrow> page | Inl e \<Rightarrow> [])
             [1..<Suc ((3 + nat 2 - 1) div nat 2)]) =
     [example_device, second_device, third_device]"
    by (simp only:)
  from h p1 p2 p3 c show ?thesis by blast
qed

section \<open>Deploy, then recall\<close>

lemma query_id_logs [simp]: "query_id (s\<lparr>logs := x\<rparr>) i = query_id s i"
  by (simp add: query_id_def)

lemma log_action_committed:
  "DeviceDAO_log_action s True i a old new u n =
     (True, s\<lparr>logs := logs s @ [\<lparr>device_id = i, action = a, old_status = old, new_status = new,
                                 performed_by = u, log_notes = n\<rparr>]\<rparr>)"
  by (simp add: DeviceDAO_log_action_def)

lemma create_device_committed:
  assumes ok: "session_ok s" and r: "create_device s now True rq = (Inr resp, s1)"
  shows "\<exists>d1. s1 = s\<lparr>devices := devices s @ [d1], next_id := Suc (next_id s)\<rparr> \<and>
           resp = to_response d1 \<and> dev_id d1 = Some (next_id s) \<and> status d1 = Some IN_STOCK \<and>
           deploy_date d1 = None \<and> query_id s1 (next_id s) = Inr (Some d1)"
proof -
  let ?dev = "\<lparr>dev_id = None, name = rq_name rq, dev_type = Some (rq_type rq),
                serial_number = rq_serial_number rq, description = rq_description rq,
                status = None, location = rq_location rq,
                specifications = rq_specifications rq, purchase_date = None,
                deploy_date = None, last_maintenance_date = None, created_at = None,
                updated_at = None\<rparr>"
  let ?d1 = "insert_defaults (next_id s) now ?dev"
  have qs: "query_serial s (rq_serial_number rq) = Inr None"
    using r by (auto simp: create_device_def DeviceDAO_create_device_def Let_def
        split: sum.splits option.splits if_splits)
  then have s1: "s1 = s\<lparr>devices := devices s @ [?d1], next_id := Suc (next_id s)\<rparr>"
    and resp: "resp = to_response ?d1"
    using r by (auto simp: create_device_def DeviceDAO_create_device_def Let_def)
  have "\<forall>x\<in>set (devices s). dev_id x \<noteq> Some (next_id s)"
  proof
    fix x assume "x \<in> set (devices s)"
    with ok have "assigned (next_id s) (dev_id x)" by (simp add: session_ok_def list_all_iff)
    then show "dev_id x \<noteq> Some (next_id s)" by auto
  qed
  then have "filter (\<lambda>x. dev_id x = Some (next_id s)) (devices s) = []"
    by (simp add: filter_empty_conv)
  then have q: "query_id s1 (next_id s) = Inr (Some ?d1)"
    unfolding s1 by (simp add: query_id_def one_or_none_def insert_defaults_def)
  have f: "dev_id ?d1 = Some (next_id s) \<and> status ?d1 = Some IN_STOCK \<and> deploy_date ?d1 = None"
    by (simp add: insert_defaults_def)
  from s1 resp q f show ?thesis by blast
qed

lemma deploy_device_committed:
  assumes q: "query_id s i = Inr (Some d)"
    and st: "status d \<in> {Some IN_STOCK, Some RESERVED, Some MAINTENANCE}"
  shows "\<exists>d2. deploy_device s now True True i rq =
           (Inr \<lparr>success = True, device = Some (to_response d2)\<rparr>,
            (store s now d2)\<lparr>logs := logs s @
               [\<lparr>device_id = i, action = ''deployed'',
                 old_status = map_option status_value (status d),
                 new_status = Some ''deployed'', performed_by = None,
                 log_notes = dp_notes rq\<rparr>]\<rparr>) \<and>
         d2 = d\<lparr>status := Some DEPLOYED, location := PyStr (dp_location rq),
                 deploy_date := Some now, updated_at := Some now\<rparr> \<and>
         query_id (store s now d2) i = Inr (Some d2)"
proof -
  let ?D = "d\<lparr>status := Some DEPLOYED, location := PyStr (dp_location rq), deploy_date := Some now\<rparr>"
  let ?d2 = "on_update now ?D"
  have i: "dev_id d = Some i" by (rule query_id_dev_id[OF q])
  have dao: "DeviceDAO_deploy_device s now True i (dp_location rq) = Inr (Some ?d2, store s now ?D)"
    using q st by (auto simp: DeviceDAO_deploy_device_def Let_def)
  have same: "store s now ?d2 = store s now ?D"
    by (simp add: store_def on_update_def)
  have q2: "query_id (store s now ?D) i = Inr (Some ?d2)"
    using q i by (simp add: query_id_store)
  have "deploy_device s now True True i rq =
           (Inr \<lparr>success = True, device = Some (to_response ?d2)\<rparr>,
            (store s now ?D)\<lparr>logs := logs s @
               [\<lparr>device_id = i, action = ''deployed'',
                 old_status = map_option status_value (status d),
                 new_status = Some ''deployed'', performed_by = None,
                 log_notes = dp_notes rq\<rparr>]\<rparr>)"
    using q dao by (simp add: deploy_device_def DeviceDAO_get_device_by_id_def Let_def
        log_action_committed)
  moreover have "?d2 = d\<lparr>status := Some DEPLOYED, location := PyStr (dp_location rq),
                 deploy_date := Some now, updated_at := Some now\<rparr>"
    by (simp add: on_update_def)
  ultimately show ?thesis using q2 same by metis
qed

lemma recall_device_committed:
  assumes q: "query_id s i = Inr (Some d)" and st: "status d = Some DEPLOYED"
  shows "\<exists>d3. recall_device s now True True i rq =
           (Inr \<lparr>success = True, device = Some (to_response d3)\<rparr>,
            (store s now d3)\<lparr>logs := logs s @
               [\<lparr>device_id = i, action = ''recalled'',
                 old_status = Some ''deployed'',
                 new_status = Some ''in_stock'', performed_by = None,
                 log_notes = rc_notes rq\<rparr>]\<rparr>) \<and>
         status d3 = Some IN_STOCK \<and> deploy_date d3 = None \<and> updated_at d3 = Some now \<and>
         location d3 = (if truthy (rc_location rq) then PyStr (the (rc_location rq)) else location d) \<and>
         dev_id d3 = Some i \<and>
         query_id (store s now d3) i = Inr (Some d3)"
proof -
  let ?D = "(if truthy (rc_location rq)
             then d\<lparr>status := Some IN_STOCK, location := PyStr (the (rc_location rq))\<rparr>
             else d\<lparr>status := Some IN_STOCK\<rparr>)\<lparr>deploy_date := None\<rparr>"
  let ?d3 = "on_update now ?D"
  have i: "dev_id d = Some i" by (rule query_id_dev_id[OF q])
  have iD: "dev_id ?D = Some i" using i by simp
  have dao: "DeviceDAO_recall_device s now True i (rc_location rq) = Inr (Some ?d3, store s now ?D)"
    using q st by (simp add: DeviceDAO_recall_device_def Let_def)
  have same: "store s now ?d3 = store s now ?D"
    by (simp add: store_def on_update_def)
  have q2: "query_id (store s now ?D) i = Inr (Some ?d3)"
    using q iD by (rule query_id_store)
  have "recall_device s now True True i rq =
           (Inr \<lparr>success = True, device = Some (to_response ?d3)\<rparr>,
            (store s now ?D)\<lparr>logs := logs s @
               [\<lparr>device_id = i, action = ''recalled'',
                 old_status = Some ''deployed'',
                 new_status = Some ''in_stock'', performed_by = None,
                 log_notes = rc_notes rq\<rparr>]\<rparr>)"
    using q dao st by (simp add: recall_device_def DeviceDAO_get_device_by_id_def Let_def
        log_action_committed)
  moreover have "status ?d3 = Some IN_STOCK \<and> deploy_date ?d3 = None \<and> updated_at ?d3 = Some now \<and>
         location ?d3 = (if truthy (rc_location rq) then PyStr (the (rc_location rq)) else location d) \<and>
         dev_id ?d3 = Some i"
    using i by (simp add: on_update_def)
  ultimately show ?thesis using q2 same by metis
qed

text \<open>
  C4. A device that the service has just created, in any state it can reach, is
  \<open>in_stock\<close>. When it is deployed to a location and then recalled, every commit going
  through, both endpoints succeed, the device is \<open>deployed\<close> with its deploy date in
  between, and at the end it is \<open>in_stock\<close> with no deploy date; the log then holds
  exactly two rows for it, \<open>deployed\<close> from \<open>in_stock\<close> to \<open>deployed\<close> and then
  \<open>recalled\<close> from \<open>deployed\<close> to \<open>in_stock\<close>.
\<close>

theorem deploy_then_recall_round_trip:
  assumes "create_device (fst (run calls)) t0 True rq = (Inr r, s1)"
  shows
    "\<exists>i d2 d3 s2 s3.
       r_id r = Some i \<and> r_status r = Some ''in_stock'' \<and>
       deploy_device s1 t1 True True i dq =
         (Inr \<lparr>success = True, device = Some (to_response d2)\<rparr>, s2) \<and>
       status d2 = Some DEPLOYED \<and> location d2 = PyStr (dp_location dq) \<and>
       deploy_date d2 = Some t1 \<and>
       recall_device s2 t2 True True i rcq =
         (Inr \<lparr>success = True, device = Some (to_response d3)\<rparr>, s3) \<and>
       DeviceDAO_get_device_by_id s3 i = Inr (Some d3) \<and>
       status d3 = Some IN_STOCK \<and> deploy_date d3 = None \<and>
       logs_of s3 i =
         [\<lparr>device_id = i, action = ''deployed'', old_status = Some ''in_stock'',
           new_status = Some ''deployed'', performed_by = None, log_notes = dp_notes dq\<rparr>,
          \<lparr>device_id = i, action = ''recalled'', old_status = Some ''deployed'',
           new_status = Some ''in_stock'', performed_by = None, log_notes = rc_notes rcq\<rparr>]"
proof -
  let ?s = "fst (run calls)"
  let ?i = "next_id ?s"
  have ok: "session_ok ?s" by (rule session_ok_run)
  from create_device_committed[OF ok assms] obtain d1 where
    s1: "s1 = ?s\<lparr>devices := devices ?s @ [d1], next_id := Suc ?i\<rparr>"
    and r: "r = to_response d1" and i1: "dev_id d1 = Some ?i"
    and st1: "status d1 = Some IN_STOCK" and q1: "query_id s1 ?i = Inr (Some d1)"
    by blast
  have st1': "status d1 \<in> {Some IN_STOCK, Some RESERVED, Some MAINTENANCE}" using st1 by simp
  let ?l1 = "\<lparr>device_id = ?i, action = ''deployed'', old_status = Some ''in_stock'',
           new_status = Some ''deployed'', performed_by = None, log_notes = dp_notes dq\<rparr>"
  let ?l2 = "\<lparr>device_id = ?i, action = ''recalled'', old_status = Some ''deployed'',
           new_status = Some ''in_stock'', performed_by = None, log_notes = rc_notes rcq\<rparr>"
  from deploy_device_committed[OF q1 st1', of t1 dq] obtain d2 where
    dep: "deploy_device s1 t1 True True ?i dq =
           (Inr \<lparr>success = True, device = Some (to_response d2)\<rparr>,
            (store s1 t1 d2)\<lparr>logs := logs s1 @ [?l1]\<rparr>)"
    and d2: "d2 = d1\<lparr>status := Some DEPLOYED, location := PyStr (dp_location dq),
                 deploy_date := Some t1, updated_at := Some t1\<rparr>"
    and q2: "query_id (store s1 t1 d2) ?i = Inr (Some d2)"
    using st1 by auto
  let ?s2 = "(store s1 t1 d2)\<lparr>logs := logs s1 @ [?l1]\<rparr>"
  have q2': "query_id ?s2 ?i = Inr (Some d2)" using q2 by simp
  have st2: "status d2 = Some DEPLOYED" using d2 by simp
  from recall_device_committed[OF q2' st2, of t2 rcq] obtain d3 where
    rec: "recall_device ?s2 t2 True True ?i rcq =
           (Inr \<lparr>success = True, device = Some (to_response d3)\<rparr>,
            (store ?s2 t2 d3)\<lparr>logs := logs ?s2 @ [?l2]\<rparr>)"
    and st3: "status d3 = Some IN_STOCK" "deploy_date d3 = None"
    and q3: "query_id (store ?s2 t2 d3) ?i = Inr (Some d3)"
    by blast
  let ?s3 = "(store ?s2 t2 d3)\<lparr>logs := logs ?s2 @ [?l2]\<rparr>"
  have g3: "DeviceDAO_get_device_by_id ?s3 ?i = Inr (Some d3)"
    using q3 by (simp add: DeviceDAO_get_device_by_id_def)
  have lg: "logs ?s3 = logs ?s @ [?l1, ?l2]" by (simp add: s1)
  have "\<forall>l\<in>set (logs ?s). device_id l \<noteq> ?i"
    using ok by (auto simp: session_ok_def list_all_iff)
  then have "filter (\<lambda>l. device_id l = ?i) (logs ?s) = []" by (simp add: filter_empty_conv)
  then have lo: "logs_of ?s3 ?i = [?l1, ?l2]" unfolding logs_of_def lg by simp
  have rr: "r_id r = Some ?i \<and> r_status r = Some ''in_stock''"
    using r i1 st1 by (simp add: to_response_def)
  have f2: "location d2 = PyStr (dp_location dq) \<and> deploy_date d2 = Some t1"
    using d2 by simp
  from rr dep st2 f2 rec g3 st3 lo show ?thesis by blast
qed

theorem deploy_then_recall_round_trip_witness:
  "create_device (fst (run [])) 10 True example_request =
     (Inr (to_response example_device), example_session) \<and>
   logs_of
     (snd (recall_device
        (snd (deploy_device example_session 20 True True 1
                \<lparr>dp_location = ''Field-7'', dp_notes = PyNone\<rparr>))
        30 True True 1 \<lparr>rc_location = None, rc_notes = PyNone\<rparr>)) 1 =
     [\<lparr>device_id = 1, action = ''deployed'', old_status = Some ''in_stock'',
       new_status = Some ''deployed'', performed_by = None, log_notes = PyNone\<rparr>,
      \<lparr>device_id = 1, action = ''recalled'', old_status = Some ''deployed'',
       new_status = Some ''in_stock'', performed_by = None, log_notes = PyNone\<rparr>] \<and>
   (\<exists>d3. DeviceDAO_get_device_by_id
           (snd (recall_device
              (snd (deploy_device example_session 20 True True 1
                      \<lparr>dp_location = ''Field-7'', dp_notes = PyNone\<rparr>))
              30 True True 1 \<lparr>rc_location = None, rc_notes = PyNone\<rparr>)) 1 = Inr (Some d3) \<and>
         status d3 = Some IN_STOCK \<and> deploy_date d3 = None)"
proof -
  let ?dq = "\<lparr>dp_location = ''Field-7'', dp_notes = PyNone\<rparr>"
  let ?rq = "\<lparr>rc_location = None, rc_notes = PyNone\<rparr>"
  have h: "create_device (fst (run [])) 10 True example_request =
     (Inr (to_response example_device), example_session)"
    by (simp add: run_def initial_def create_device_def DeviceDAO_create_device_def
        query_serial_def one_or_none_def insert_defaults_def example_request_def
        example_session_def example_device_def Let_def)
  from deploy_then_recall_round_trip [OF h, of 20 ?dq 30 ?rq] obtain i d2 d3 s2 s3 where
    i: "r_id (to_response example_device) = Some i"
    and dep: "deploy_device example_session 20 True True i ?dq =
         (Inr \<lparr>success = True, device = Some (to_response d2)\<rparr>, s2)"
    and rec: "recall_device s2 30 True True i ?rq =
         (Inr \<lparr>success = True, device = Some (to_response d3)\<rparr>, s3)"
    and g: "DeviceDAO_get_device_by_id s3 i = Inr (Some d3)"
    and st: "status d3 = Some IN_STOCK" "deploy_date d3 = None"
    and lg: "logs_of s3 i =
         [\<lparr>device_id = i, action = ''deployed'', old_status = Some ''in_stock'',
           new_status = Some ''deployed'', performed_by = None, log_notes = dp_notes ?dq\<rparr>,
          \<lparr>device_id = i, action = ''recalled'', old_status = Some ''deployed'',
           new_status = Some ''in_stock'', performed_by = None, log_notes = rc_notes ?rq\<rparr>]"
    by blast
  have i1: "i = 1" using i by (simp add: to_response_def example_device_def)
  have s2: "snd (deploy_device example_session 20 True True 1 ?dq) = s2"
    using dep unfolding i1 by simp
  have s3: "snd (recall_device s2 30 True True 1 ?rq) = s3"
    using rec unfolding i1 by simp
  show ?thesis
    using h g st lg unfolding s2 s3 i1 by simp
qed

section \<open>The audit log\<close>

lemma audited_commit:
  assumes q: "query_id s i = Inr (Some d)" and i: "dev_id D = Some i"
    and st: "map_option status_value (status D) = new"
  shows "audited s i act n
           ((store s now D)\<lparr>logs := logs s @
              [\<lparr>device_id = i, action = act, old_status = map_option status_value (status d),
                new_status = new, performed_by = None, log_notes = n\<rparr>]\<rparr>)"
proof -
  have "query_id (store s now D) i = Inr (Some (on_update now D))"
    using q i by (rule query_id_store)
  then show ?thesis
    using q st by (simp add: audited_def DeviceDAO_get_device_by_id_def on_update_def)
qed

lemma audited_update_device_status:
  "snd (update_device_status s now c True i rq) = s \<or>
   audited s i ''status_change'' (su_notes rq) (snd (update_device_status s now c True i rq))"
proof (cases "DeviceDAO_get_device_by_id s i")
  case (Inl e)
  then show ?thesis by (simp add: update_device_status_def)
next
  case (Inr found)
  show ?thesis
  proof (cases found)
    case None
    with Inr show ?thesis by (simp add: update_device_status_def)
  next
    case (Some d)
    with Inr have g: "DeviceDAO_get_device_by_id s i = Inr (Some d)" by simp
    then have q: "query_id s i = Inr (Some d)" by (simp add: DeviceDAO_get_device_by_id_def)
    let ?D = "(if truthy (su_location rq) then d\<lparr>status := Some (su_status rq), location := PyStr (the (su_location rq))\<rparr> else d\<lparr>status := Some (su_status rq)\<rparr>)"
    let ?S = "(store s now ?D)\<lparr>logs := logs s @
                 [\<lparr>device_id = i, action = ''status_change'',
                   old_status = map_option status_value (status d),
                   new_status = Some (status_value (su_status rq)), performed_by = None,
                   log_notes = su_notes rq\<rparr>]\<rparr>"
    have iD: "dev_id ?D = Some i" using query_id_dev_id[OF q] by simp
    have ns: "map_option status_value (status ?D) = Some (status_value (su_status rq))" by simp
    have r: "DeviceDAO_update_device_status s now c i (su_status rq) (su_location rq) = Inr (None, s) \<or>
             DeviceDAO_update_device_status s now c i (su_status rq) (su_location rq) = Inr (Some (on_update now ?D), store s now ?D)"
      using q by (auto simp: DeviceDAO_update_device_status_def Let_def)
    then show ?thesis
    proof
      assume "DeviceDAO_update_device_status s now c i (su_status rq) (su_location rq) = Inr (None, s)"
      with g show ?thesis by (simp add: update_device_status_def)
    next
      assume a: "DeviceDAO_update_device_status s now c i (su_status rq) (su_location rq) = Inr (Some (on_update now ?D), store s now ?D)"
      have aud: "audited s i ''status_change'' (su_notes rq) ?S"
        using q iD ns by (rule audited_commit)
      have res: "snd (update_device_status s now c True i rq) = ?S"
        using g a by (simp add: update_device_status_def Let_def log_action_committed)
      from aud show ?thesis unfolding res by (rule disjI2)
    qed
  qed
qed

lemma audited_deploy_device:
  "snd (deploy_device s now c True i rq) = s \<or>
   audited s i ''deployed'' (dp_notes rq) (snd (deploy_device s now c True i rq))"
proof (cases "DeviceDAO_get_device_by_id s i")
  case (Inl e)
  then show ?thesis by (simp add: deploy_device_def)
next
  case (Inr found)
  show ?thesis
  proof (cases found)
    case None
    with Inr show ?thesis by (simp add: deploy_device_def)
  next
    case (Some d)
    with Inr have g: "DeviceDAO_get_device_by_id s i = Inr (Some d)" by simp
    then have q: "query_id s i = Inr (Some d)" by (simp add: DeviceDAO_get_device_by_id_def)
    let ?D = "d\<lparr>status := Some DEPLOYED, location := PyStr (dp_location rq), deploy_date := Some now\<rparr>"
    let ?S = "(store s now ?D)\<lparr>logs := logs s @
                 [\<lparr>device_id = i, action = ''deployed'',
                   old_status = map_option status_value (status d),
                   new_status = Some ''deployed'', performed_by = None,
                   log_notes = dp_notes rq\<rparr>]\<rparr>"
    have iD: "dev_id ?D = Some i" using query_id_dev_id[OF q] by simp
    have ns: "map_option status_value (status ?D) = Some ''deployed''" by simp
    have r: "DeviceDAO_deploy_device s now c i (dp_location rq) = Inr (None, s) \<or>
             DeviceDAO_deploy_device s now c i (dp_location rq) = Inr (Some (on_update now ?D), store s now ?D)"
      using q by (auto simp: DeviceDAO_deploy_device_def Let_def)
    then show ?thesis
    proof
      assume "DeviceDAO_deploy_device s now c i (dp_location rq) = Inr (None, s)"
      with g show ?thesis by (simp add: deploy_device_def)
    next
      assume a: "DeviceDAO_deploy_device s now c i (dp_location rq) = Inr (Some (on_update now ?D), store s now ?D)"
      have aud: "audited s i ''deployed'' (dp_notes rq) ?S"
        using q iD ns by (rule audited_commit)
      have res: "snd (deploy_device s now c True i rq) = ?S"
        using g a by (simp add: deploy_device_def Let_def log_action_committed)
      from aud show ?thesis unfolding res by (rule disjI2)
    qed
  qed
qed

lemma audited_recall_device:
  "snd (recall_device s now c True i rq) = s \<or>
   audited s i ''recalled'' (rc_notes rq) (snd (recall_device s now c True i rq))"
proof (cases "DeviceDAO_get_device_by_id s i")
  case (Inl e)
  then show ?thesis by (simp add: recall_device_def)
next
  case (Inr found)
  show ?thesis
  proof (cases found)
    case None
    with Inr show ?thesis by (simp add: recall_device_def)
  next
    case (Some d)
    with Inr have g: "DeviceDAO_get_device_by_id s i = Inr (Some d)" by simp
    then have q: "query_id s i = Inr (Some d)" by (simp add: DeviceDAO_get_device_by_id_def)
    let ?D = "(if truthy (rc_location rq) then d\<lparr>status := Some IN_STOCK, location := PyStr (the (rc_location rq))\<rparr> else d\<lparr>status := Some IN_STOCK\<rparr>)\<lparr>deploy_date := None\<rparr>"
    let ?S = "(store s now ?D)\<lparr>logs := logs s @
                 [\<lparr>device_id = i, action = ''recalled'',
                   old_status = map_option status_value (status d),
                   new_status = Some ''in_stock'', performed_by = None,
                   log_notes = rc_notes rq\<rparr>]\<rparr>"
    have iD: "dev_id ?D = Some i" using query_id_dev_id[OF q] by simp
    have ns: "map_option status_value (status ?D) = Some ''in_stock''" by simp
    have r: "DeviceDAO_recall_device s now c i (rc_location rq) = Inr (None, s) \<or>
             DeviceDAO_recall_device s now c i (rc_location rq) = Inr (Some (on_update now ?D), store s now ?D)"
      using q by (auto simp: DeviceDAO_recall_device_def Let_def)
    then show ?thesis
    proof
      assume "DeviceDAO_recall_device s now c i (rc_location rq) = Inr (None, s)"
      with g show ?thesis by (simp add: recall_device_def)
    next
      assume a: "DeviceDAO_recall_device s now c i (rc_location rq) = Inr (Some (on_update now ?D), store s now ?D)"
      have aud: "audited s i ''recalled'' (rc_notes rq) ?S"
        using q iD ns by (rule audited_commit)
      have res: "snd (recall_device s now c True i rq) = ?S"
        using g a by (simp add: recall_device_def Let_def log_action_committed)
      from aud show ?thesis unfolding res by (rule disjI2)
    qed
  qed
qed

lemma audited_send_to_maintenance:
  "snd (send_to_maintenance s now c True i rq) = s \<or>
   audited s i ''maintenance'' (mt_notes rq) (snd (send_to_maintenance s now c True i rq))"
proof (cases "DeviceDAO_get_device_by_id s i")
  case (Inl e)
  then show ?thesis by (simp add: send_to_maintenance_def)
next
  case (Inr found)
  show ?thesis
  proof (cases found)
    case None
    with Inr show ?thesis by (simp add: send_to_maintenance_def)
  next
    case (Some d)
    with Inr have g: "DeviceDAO_get_device_by_id s i = Inr (Some d)" by simp
    then have q: "query_id s i = Inr (Some d)" by (simp add: DeviceDAO_get_device_by_id_def)
    let ?D = "d\<lparr>status := Some MAINTENANCE, last_maintenance_date := Some now\<rparr>"
    let ?S = "(store s now ?D)\<lparr>logs := logs s @
                 [\<lparr>device_id = i, action = ''maintenance'',
                   old_status = map_option status_value (status d),
                   new_status = Some ''maintenance'', performed_by = None,
                   log_notes = mt_notes rq\<rparr>]\<rparr>"
    have iD: "dev_id ?D = Some i" using query_id_dev_id[OF q] by simp
    have ns: "map_option status_value (status ?D) = Some ''maintenance''" by simp
    have r: "DeviceDAO_send_to_maintenance s now c i = Inr (None, s) \<or>
             DeviceDAO_send_to_maintenance s now c i = Inr (Some (on_update now ?D), store s now ?D)"
      using q by (auto simp: DeviceDAO_send_to_maintenance_def Let_def)
    then show ?thesis
    proof
      assume "DeviceDAO_send_to_maintenance s now c i = Inr (None, s)"
      with g show ?thesis by (simp add: send_to_maintenance_def)
    next
      assume a: "DeviceDAO_send_to_maintenance s now c i = Inr (Some (on_update now ?D), store s now ?D)"
      have aud: "audited s i ''maintenance'' (mt_notes rq) ?S"
        using q iD ns by (rule audited_commit)
      have res: "snd (send_to_maintenance s now c True i rq) = ?S"
        using g a by (simp add: send_to_maintenance_def Let_def log_action_committed)
      from aud show ?thesis unfolding res by (rule disjI2)
    qed
  qed
qed

lemma audited_reserve_device:
  "fst (snd (reserve_device s q now c True p i rq)) = s \<or>
   audited s i ''reserved'' (rs_notes rq) (fst (snd (reserve_device s q now c True p i rq)))"
proof (cases "DeviceDAO_get_device_by_id s i")
  case (Inl e)
  then show ?thesis by (simp add: reserve_device_def)
next
  case (Inr found)
  show ?thesis
  proof (cases found)
    case None
    with Inr show ?thesis by (simp add: reserve_device_def)
  next
    case (Some d)
    with Inr have g: "DeviceDAO_get_device_by_id s i = Inr (Some d)" by simp
    then have q: "query_id s i = Inr (Some d)" by (simp add: DeviceDAO_get_device_by_id_def)
    let ?D = "d\<lparr>status := Some RESERVED\<rparr>"
    let ?S = "(store s now ?D)\<lparr>logs := logs s @
                 [\<lparr>device_id = i, action = ''reserved'',
                   old_status = map_option status_value (status d),
                   new_status = Some ''reserved'', performed_by = None,
                   log_notes = rs_notes rq\<rparr>]\<rparr>"
    have iD: "dev_id ?D = Some i" using query_id_dev_id[OF q] by simp
    have ns: "map_option status_value (status ?D) = Some ''reserved''" by simp
    have r: "DeviceDAO_reserve_device s now c i = Inr (None, s) \<or>
             DeviceDAO_reserve_device s now c i = Inr (Some (on_update now ?D), store s now ?D)"
      using q by (auto simp: DeviceDAO_reserve_device_def Let_def)
    then show ?thesis
    proof
      assume "DeviceDAO_reserve_device s now c i = Inr (None, s)"
      with g show ?thesis by (simp add: reserve_device_def)
    next
      assume a: "DeviceDAO_reserve_device s now c i = Inr (Some (on_update now ?D), store s now ?D)"
      have aud: "audited s i ''reserved'' (rs_notes rq) ?S"
        using q iD ns by (rule audited_commit)
      have res: "fst (snd (reserve_device s q now c True p i rq)) = ?S"
        using g a by (simp add: reserve_device_def Let_def log_action_committed publish_device_event_def)
      from aud show ?thesis unfolding res by (rule disjI2)
    qed
  qed
qed

lemma update_device_logs: "logs (snd (update_device s now c i rq)) = logs s"
  by (auto simp: update_device_def DeviceDAO_update_device_def Let_def
      split: sum.splits option.splits)

lemma delete_device_logs: "logs (snd (delete_device s now c i)) = logs s"
  by (auto simp: delete_device_def DeviceDAO_delete_device_def Let_def
      split: sum.splits option.splits)

lemma status_enumerated:
  "st \<in> {IN_STOCK, RESERVED, DEPLOYED, MAINTENANCE, RETIRED}"
  by (cases st) simp_all

text \<open>
  C6, as the code has it. In every state the service reaches, the status of every device is
  one of the five enumerated values. Each of the endpoints for a direct status change,
  deploy, recall, maintenance and reserve either leaves the store as it was or, when the
  insert of the log row commits, appends exactly one log row for the device, with the
  action and with the status before and after the call. The endpoint that updates the
  descriptive fields never writes a log row.
\<close>

theorem status_operations_are_audited:
  "(\<forall>d\<in>set (devices (fst (run calls))).
      status d \<in> Some ` {IN_STOCK, RESERVED, DEPLOYED, MAINTENANCE, RETIRED}) \<and>
   (snd (update_device_status s now c True i srq) = s \<or>
    audited s i ''status_change'' (su_notes srq) (snd (update_device_status s now c True i srq))) \<and>
   (snd (deploy_device s now c True i dq) = s \<or>
    audited s i ''deployed'' (dp_notes dq) (snd (deploy_device s now c True i dq))) \<and>
   (snd (recall_device s now c True i rcq) = s \<or>
    audited s i ''recalled'' (rc_notes rcq) (snd (recall_device s now c True i rcq))) \<and>
   (snd (send_to_maintenance s now c True i mq) = s \<or>
    audited s i ''maintenance'' (mt_notes mq) (snd (send_to_maintenance s now c True i mq))) \<and>
   (fst (snd (reserve_device s q now c True p i rsq)) = s \<or>
    audited s i ''reserved'' (rs_notes rsq) (fst (snd (reserve_device s q now c True p i rsq)))) \<and>
   logs (snd (update_device s now c i urq)) = logs s"
proof -
  have "status d \<in> Some ` {IN_STOCK, RESERVED, DEPLOYED, MAINTENANCE, RETIRED}"
    if "d \<in> set (devices (fst (run calls)))" for d
  proof -
    from session_ok_run[of calls] that have "status d \<noteq> None"
      by (simp add: session_ok_def list_all_iff)
    then obtain st where "status d = Some st" by auto
    with status_enumerated[of st] show ?thesis by simp
  qed
  then show ?thesis
    using audited_update_device_status[of s now c i srq] audited_deploy_device[of s now c i dq]
      audited_recall_device[of s now c i rcq] audited_send_to_maintenance[of s now c i mq]
      audited_reserve_device[of s q now c p i rsq] update_device_logs[of s now c i urq]
    by blast
qed

theorem status_operations_are_audited_witness:
  "example_device \<in> set (devices (fst (run [CreateDevice 10 True example_request]))) \<and>
   status example_device \<in> Some ` {IN_STOCK, RESERVED, DEPLOYED, MAINTENANCE, RETIRED} \<and>
   snd (deploy_device example_session 20 True True 1
          \<lparr>dp_location = ''Field-7'', dp_notes = PyNone\<rparr>) \<noteq> example_session \<and>
   audited example_session 1 ''deployed'' PyNone
     (snd (deploy_device example_session 20 True True 1
             \<lparr>dp_location = ''Field-7'', dp_notes = PyNone\<rparr>))"
proof -
  let ?dq = "\<lparr>dp_location = ''Field-7'', dp_notes = PyNone\<rparr>"
  have m: "example_device \<in> set (devices (fst (run [CreateDevice 10 True example_request])))"
    by (simp add: example_session_run example_session_def)
  note t = status_operations_are_audited [of "[CreateDevice 10 True example_request]"
      example_session 20 True 1 _ ?dq]
  from t m have a: "status example_device \<in> Some ` {IN_STOCK, RESERVED, DEPLOYED, MAINTENANCE, RETIRED}"
    by blast
  have n: "snd (deploy_device example_session 20 True True 1 ?dq) \<noteq> example_session"
    by (simp add: deploy_device_def DeviceDAO_deploy_device_def DeviceDAO_get_device_by_id_def
        DeviceDAO_log_action_def query_id_def one_or_none_def store_def Let_def
        example_session_def example_device_def)
  from t n have b: "audited example_session 1 ''deployed'' PyNone
     (snd (deploy_device example_session 20 True True 1 ?dq))"
    by auto
  from m a n b show ?thesis by blast
qed

text \<open>
  C6 as stated does not hold: updating the name of the stored sensor changes its row (the
  name and the update time) and leaves the log empty.
\<close>

theorem update_device_writes_no_log:
  "update_device example_session 20 True 1
     \<lparr>up_name = PyStr ''probe-2'', up_description = PyStr ''soil probe'',
      up_location = PyStr ''Shelf-3'', up_specifications = PyDict [(''range'', PyStr ''10m'')]\<rparr> =
     (Inr (to_response (example_device\<lparr>name := PyStr ''probe-2'', updated_at := Some 20\<rparr>)),
      \<lparr>devices = [example_device\<lparr>name := PyStr ''probe-2'', updated_at := Some 20\<rparr>],
       logs = [], next_id = 2\<rparr>) \<and>
   example_device\<lparr>name := PyStr ''probe-2'', updated_at := Some 20\<rparr> \<noteq> example_device \<and>
   devices example_session = [example_device] \<and>
   logs example_session = []"
  by (simp add: update_device_def DeviceDAO_update_device_def query_id_def one_or_none_def
      store_def on_update_def setattr_device_def allowed_fields_def Let_def
      example_session_def example_device_def)


end
